theory Spec2Isabelle
  imports Complex_Main "HOL-Library.Word"
begin

section \<open>Machine types and the timebase\<close>

text \<open>
  The firmware runs on a 32-bit target: \<open>uint8_t\<close>, \<open>uint16_t\<close> and \<open>uint32_t\<close> are
  words of that width, \<open>int\<close> is 32 bits, and \<open>millis()\<close> is a free-running
  \<open>uint32_t\<close> millisecond counter.  A product such as \<open>interval_seconds * 1000\<close> is
  computed in \<open>int\<close> from a promoted \<open>uint16_t\<close> (at most 65535000, so it never
  overflows) and is then compared with a \<open>uint32_t\<close>; it is written here as
  \<open>ucast x * 1000\<close> in 32 bits.  Every control tick reads \<open>millis()\<close> several times;
  a tick is modelled with the single value \<open>now\<close>.  A \<open>float\<close> that is only compared
  with integers or copied is a \<open>real\<close>; the \<open>float\<close> arithmetic of
  \<open>calculateProportionalTime\<close> is rounded to single precision.
\<close>

type_synonym u8 = "8 word"
type_synonym u16 = "16 word"
type_synonym u32 = "32 word"

definition HOA_HAND_TIMEOUT_SEC :: u32 where
  "HOA_HAND_TIMEOUT_SEC = 600"

section \<open>Single-precision arithmetic\<close>

text \<open>
  A \<open>float\<close> is an IEEE 754 binary32 number: a significand of 24 bits, exponents from
  \<open>-126\<close> to 127, subnormal numbers below 2 to the power \<open>-126\<close>, and every operation
  rounded to the nearest representable value, ties to the even significand.  A finite \<open>float\<close> is
  modelled by the real number it denotes, and \<open>fl32 x\<close> is the \<open>float\<close> nearest to the
  real \<open>x\<close>: the sum, difference, product or quotient of two floats is \<open>fl32\<close> of the
  exact result.  \<open>exponent32 x\<close> is the exponent of the binade of \<open>x\<close>, found by search
  from 127 downwards and held at \<open>-126\<close> for the subnormal range; a value is rounded to a
  multiple of 2 to the power \<open>exponent32 x - 23\<close>.  Infinities and NaN are not reals: a
  magnitude of 2 to the power 128 or more, which IEEE rounds to infinity, does not arise
  from the finite inputs of the operations below, and a division by zero is treated where
  it occurs.
\<close>

definition pow2 :: "int \<Rightarrow> real" where
  "pow2 k = (if 0 \<le> k then 2 ^ nat k else 1 / 2 ^ nat (- k))"

definition round_even :: "real \<Rightarrow> int" where
  \<comment> \<open>the nearest integer, a tie going to the even one\<close>
  "round_even x =
     (let f = \<lfloor>x\<rfloor>; r = x - of_int f
      in if r < 1 / 2 then f else if 1 / 2 < r then f + 1 else if even f then f else f + 1)"

primrec binade :: "nat \<Rightarrow> real \<Rightarrow> nat" where
  \<comment> \<open>the largest \<open>k\<close> from 1 to \<open>n\<close> with \<open>2 ^ k \<le> y\<close>, or 0\<close>
  "binade 0 y = 0"
| "binade (Suc n) y = (if 2 ^ Suc n \<le> y then Suc n else binade n y)"

definition exponent32 :: "real \<Rightarrow> int" where
  "exponent32 x = int (binade 253 (\<bar>x\<bar> * 2 ^ 126)) - 126"

definition fl32 :: "real \<Rightarrow> real" where
  "fl32 x = of_int (round_even (x / pow2 (exponent32 x - 23))) * pow2 (exponent32 x - 23)"

text \<open>The conversions of \<open>uint16_t\<close> and \<open>uint32_t\<close> to \<open>float\<close>, and the cast of a
  \<open>float\<close> to \<open>uint32_t\<close>, which truncates (its operand below is never negative and never
  exceeds 65535000).\<close>

definition float_of_u16 :: "u16 \<Rightarrow> real" where
  "float_of_u16 w = fl32 (real (unat w))"

definition float_of_u32 :: "u32 \<Rightarrow> real" where
  "float_of_u32 w = fl32 (real (unat w))"

definition u32_of_float :: "real \<Rightarrow> u32" where
  "u32_of_float x = of_nat (nat \<lfloor>x\<rfloor>)"

section \<open>config.h\<close>

datatype sample_mode_t =
  SAMPLE_MODE_CONTINUOUS | SAMPLE_MODE_INTERMITTENT
  | SAMPLE_MODE_TIMED_BLOWDOWN | SAMPLE_MODE_TIME_PROPORTIONAL

datatype hoa_mode_t = HOA_AUTO | HOA_OFF | HOA_HAND

text \<open>The sampling fields of \<open>conductivity_config_t\<close> (the measurement fields are
  not read by the control core).\<close>

record conductivity_config_t =
  sample_mode :: sample_mode_t
  interval_seconds :: u16
  duration_seconds :: u16
  hold_time_seconds :: u16
  blow_time_seconds :: u16
  prop_band :: u16
  max_prop_time_seconds :: u16

record blowdown_config_t =
  setpoint :: u16
  deadband :: u16
  time_limit_seconds :: u16
  control_direction :: u8
  ball_valve_delay :: u8
  bc_hoa_mode :: hoa_mode_t
  bc_timeout_flag :: bool
  accumulated_time :: u32

section \<open>blowdown.h\<close>

datatype blowdown_state_t =
  BD_STATE_IDLE | BD_STATE_VALVE_OPENING | BD_STATE_BLOWING_DOWN | BD_STATE_VALVE_CLOSING
  | BD_STATE_SAMPLING | BD_STATE_HOLDING | BD_STATE_WAITING | BD_STATE_TIMEOUT | BD_STATE_ERROR

record blowdown_status_t =
  state :: blowdown_state_t
  valve_open :: bool
  relay_energized :: bool
  hoa_mode :: hoa_mode_t
  state_start_time :: u32
  blowdown_start_time :: u32
  current_blowdown_time :: u32
  total_blowdown_time :: u32
  accumulated_blowdown_time :: u32
  timeout_flag :: bool
  waiting_for_reset :: bool
  last_conductivity :: real
  trapped_sample_conductivity :: real

text \<open>
  The private members of \<open>BlowdownController\<close>.  The two configuration pointers may be
  null (\<open>None\<close>); the controller writes \<open>hoa_mode\<close> and \<open>timeout_flag\<close> through
  \<open>_config\<close>, so the pointed-to record is part of the state.  \<open>hand_start_time\<close> is the
  function-static variable of \<open>processHOA\<close>; there is one controller instance.  The pin
  numbers only route \<open>digitalWrite\<close>; the commanded output is \<open>relay_energized\<close>.
\<close>

record BlowdownController =
  config :: "blowdown_config_t option"
  cond_config :: "conductivity_config_t option"
  status :: blowdown_status_t
  valve_action_start :: u32
  valve_target_state :: bool
  interval_timer :: u32
  duration_timer :: u32
  hold_timer :: u32
  prop_blowdown_time :: u32
  hand_start_time :: u32

section \<open>blowdown.cpp\<close>

definition transitionState :: "u32 \<Rightarrow> blowdown_state_t \<Rightarrow> BlowdownController \<Rightarrow> BlowdownController" where
  "transitionState now new_state c =
     c\<lparr>status := (status c)\<lparr>state := new_state, state_start_time := now\<rparr>\<rparr>"

definition setRelayState :: "bool \<Rightarrow> BlowdownController \<Rightarrow> BlowdownController" where
  "setRelayState energize c = c\<lparr>status := (status c)\<lparr>relay_energized := energize\<rparr>\<rparr>"

definition startBallValve :: "u32 \<Rightarrow> bool \<Rightarrow> BlowdownController \<Rightarrow> BlowdownController" where
  "startBallValve now opening c =
     transitionState now (if opening then BD_STATE_VALVE_OPENING else BD_STATE_VALVE_CLOSING)
       (setRelayState opening (c\<lparr>valve_target_state := opening, valve_action_start := now\<rparr>))"

definition has_ball_valve :: "BlowdownController \<Rightarrow> bool" where
  \<comment> \<open>\<open>_config && _config->ball_valve_delay > 0\<close>\<close>
  "has_ball_valve c = (case config c of None \<Rightarrow> False | Some cfg \<Rightarrow> ball_valve_delay cfg > 0)"

definition openValve :: "u32 \<Rightarrow> BlowdownController \<Rightarrow> BlowdownController" where
  "openValve now c =
     (if has_ball_valve c then startBallValve now True c
      else transitionState now BD_STATE_BLOWING_DOWN
             ((setRelayState True c)\<lparr>status := (status (setRelayState True c))
                 \<lparr>valve_open := True, blowdown_start_time := now\<rparr>\<rparr>))"

definition closeValve :: "u32 \<Rightarrow> BlowdownController \<Rightarrow> BlowdownController" where
  "closeValve now c =
     (if has_ball_valve c then startBallValve now False c
      else
        let c1 = setRelayState False c;
            c2 = c1\<lparr>status := (status c1)\<lparr>valve_open := False\<rparr>\<rparr>;
            c3 = (if state (status c2) = BD_STATE_BLOWING_DOWN
                  then c2\<lparr>status := (status c2)
                         \<lparr>accumulated_blowdown_time :=
                            accumulated_blowdown_time (status c2) + current_blowdown_time (status c2),
                          total_blowdown_time :=
                            total_blowdown_time (status c2) + current_blowdown_time (status c2) div 1000\<rparr>\<rparr>
                  else c2)
        in transitionState now BD_STATE_IDLE c3)"


definition setHOA :: "hoa_mode_t \<Rightarrow> BlowdownController \<Rightarrow> BlowdownController" where
  "setHOA m c =
     c\<lparr>status := (status c)\<lparr>hoa_mode := m\<rparr>,
       config := map_option (\<lambda>cfg. cfg\<lparr>bc_hoa_mode := m\<rparr>) (config c)\<rparr>"

definition isActive :: "BlowdownController \<Rightarrow> bool" where
  "isActive c \<longleftrightarrow>
     valve_open (status c) \<or> state (status c) = BD_STATE_BLOWING_DOWN
     \<or> state (status c) = BD_STATE_VALVE_OPENING"

definition processHOA :: "u32 \<Rightarrow> BlowdownController \<Rightarrow> BlowdownController" where
  "processHOA now c =
     (case hoa_mode (status c) of
        HOA_HAND \<Rightarrow>
          if \<not> valve_open (status c) then openValve now (c\<lparr>hand_start_time := now\<rparr>)
          else if now - hand_start_time c \<ge> HOA_HAND_TIMEOUT_SEC * 1000
          then (let c1 = closeValve now c in c1\<lparr>status := (status c1)\<lparr>hoa_mode := HOA_AUTO\<rparr>\<rparr>)
          else c
      | HOA_OFF \<Rightarrow> if valve_open (status c) then closeValve now c else c
      | HOA_AUTO \<Rightarrow> c)"

definition ms :: "u16 \<Rightarrow> u32" where
  \<comment> \<open>\<open>seconds * 1000\<close> on a \<open>uint16_t\<close>, as compared with a \<open>uint32_t\<close>\<close>
  "ms seconds = ucast seconds * 1000"

definition processContinuousMode :: "u32 \<Rightarrow> real \<Rightarrow> BlowdownController \<Rightarrow> BlowdownController" where
  "processContinuousMode now conductivity c =
     (case config c of
        None \<Rightarrow> c
      | Some cfg \<Rightarrow>
          if waiting_for_reset (status c) then c
          else if control_direction cfg = 0 then
            (if conductivity > real (unat (setpoint cfg)) \<and> \<not> valve_open (status c)
             then openValve now c
             else if conductivity < real_of_int (uint (setpoint cfg) - uint (deadband cfg))
                     \<and> valve_open (status c)
             then closeValve now c
             else c)
          else
            (if conductivity < real (unat (setpoint cfg)) \<and> \<not> valve_open (status c)
             then openValve now c
             else if conductivity > real_of_int (uint (setpoint cfg) + uint (deadband cfg))
                     \<and> valve_open (status c)
             then closeValve now c
             else c))"

definition trap_sample :: "u32 \<Rightarrow> real \<Rightarrow> BlowdownController \<Rightarrow> BlowdownController" where
  \<comment> \<open>\<open>closeValve(); _hold_timer = now; trapped_sample_conductivity = conductivity;
      transitionState(BD_STATE_HOLDING)\<close>, the block shared by the sampling modes\<close>
  "trap_sample now conductivity c =
     (let c1 = (closeValve now c)\<lparr>hold_timer := now\<rparr>;
          c2 = c1\<lparr>status := (status c1)\<lparr>trapped_sample_conductivity := conductivity\<rparr>\<rparr>
      in transitionState now BD_STATE_HOLDING c2)"

definition begin_sample :: "u32 \<Rightarrow> BlowdownController \<Rightarrow> BlowdownController" where
  \<comment> \<open>\<open>_interval_timer = now; _duration_timer = now; transitionState(BD_STATE_SAMPLING);
      openValve()\<close>, the Idle/Waiting branch shared by the sampling modes\<close>
  "begin_sample now c =
     openValve now (transitionState now BD_STATE_SAMPLING
       (c\<lparr>interval_timer := now, duration_timer := now\<rparr>))"

definition processIntermittentMode :: "u32 \<Rightarrow> real \<Rightarrow> BlowdownController \<Rightarrow> BlowdownController" where
  "processIntermittentMode now conductivity c =
     (case (config c, cond_config c) of
        (Some cfg, Some cc) \<Rightarrow>
          if waiting_for_reset (status c) then c
          else if state (status c) = BD_STATE_IDLE \<or> state (status c) = BD_STATE_WAITING then
            (if now - interval_timer c \<ge> ms (interval_seconds cc) then begin_sample now c else c)
          else if state (status c) = BD_STATE_SAMPLING then
            (if now - duration_timer c \<ge> ms (duration_seconds cc) then
               (if conductivity > real (unat (setpoint cfg))
                then transitionState now BD_STATE_BLOWING_DOWN c
                else trap_sample now conductivity c)
             else c)
          else if state (status c) = BD_STATE_BLOWING_DOWN then
            (if conductivity < real (unat (setpoint cfg)) then trap_sample now conductivity c else c)
          else if state (status c) = BD_STATE_HOLDING then
            (if now - hold_timer c \<ge> ms (hold_time_seconds cc) then
               (if conductivity > real (unat (setpoint cfg))
                then openValve now (transitionState now BD_STATE_SAMPLING (c\<lparr>duration_timer := now\<rparr>))
                else transitionState now BD_STATE_WAITING c)
             else c)
          else c
      | _ \<Rightarrow> c)"

definition hold_after_blow :: "u32 \<Rightarrow> BlowdownController \<Rightarrow> BlowdownController" where
  \<comment> \<open>\<open>closeValve(); _hold_timer = now; transitionState(BD_STATE_HOLDING)\<close>\<close>
  "hold_after_blow now c = transitionState now BD_STATE_HOLDING ((closeValve now c)\<lparr>hold_timer := now\<rparr>)"

definition processTimedBlowdown :: "u32 \<Rightarrow> real \<Rightarrow> BlowdownController \<Rightarrow> BlowdownController" where
  "processTimedBlowdown now conductivity c =
     (case (config c, cond_config c) of
        (Some cfg, Some cc) \<Rightarrow>
          if waiting_for_reset (status c) then c
          else if state (status c) = BD_STATE_IDLE \<or> state (status c) = BD_STATE_WAITING then
            (if now - interval_timer c \<ge> ms (interval_seconds cc) then begin_sample now c else c)
          else if state (status c) = BD_STATE_SAMPLING then
            (if now - duration_timer c \<ge> ms (duration_seconds cc)
             then trap_sample now conductivity c else c)
          else if state (status c) = BD_STATE_HOLDING then
            (if now - hold_timer c \<ge> ms (hold_time_seconds cc) then
               (if conductivity > real (unat (setpoint cfg))
                then openValve now (transitionState now BD_STATE_BLOWING_DOWN
                       (c\<lparr>prop_blowdown_time := ms (blow_time_seconds cc)\<rparr>))
                else transitionState now BD_STATE_WAITING c)
             else c)
          else if state (status c) = BD_STATE_BLOWING_DOWN then
            (if now - blowdown_start_time (status c) \<ge> prop_blowdown_time c
             then hold_after_blow now c else c)
          else c
      | _ \<Rightarrow> c)"

definition calculateProportionalTime :: "real \<Rightarrow> BlowdownController \<Rightarrow> u32" where
  \<comment> \<open>\<open>deviation\<close> and \<open>percentage\<close> are \<open>float\<close>, and so is the product that is cast to
      \<open>uint32_t\<close>; the integer operands are converted to \<open>float\<close> first.  A zero
      \<open>prop_band\<close> makes the quotient \<open>+inf\<close> (the deviation is positive there), which the
      clamp turns into 1.\<close>
  "calculateProportionalTime conductivity c =
     (case (config c, cond_config c) of
        (Some cfg, Some cc) \<Rightarrow>
          let deviation = fl32 (conductivity - float_of_u16 (setpoint cfg)) in
          if deviation \<le> 0 then 0
          else
            let percentage =
                  (if prop_band cc = 0 then 1
                   else if 1 < fl32 (deviation / float_of_u16 (prop_band cc)) then 1
                   else fl32 (deviation / float_of_u16 (prop_band cc)));
                max_time_ms = ms (max_prop_time_seconds cc)
            in u32_of_float (fl32 (percentage * float_of_u32 max_time_ms))
      | _ \<Rightarrow> 0)"

definition processTimeProportional :: "u32 \<Rightarrow> real \<Rightarrow> BlowdownController \<Rightarrow> BlowdownController" where
  "processTimeProportional now conductivity c =
     (case (config c, cond_config c) of
        (Some cfg, Some cc) \<Rightarrow>
          if waiting_for_reset (status c) then c
          else if state (status c) = BD_STATE_IDLE \<or> state (status c) = BD_STATE_WAITING then
            (if now - interval_timer c \<ge> ms (interval_seconds cc) then begin_sample now c else c)
          else if state (status c) = BD_STATE_SAMPLING then
            (if now - duration_timer c \<ge> ms (duration_seconds cc)
             then trap_sample now conductivity c else c)
          else if state (status c) = BD_STATE_HOLDING then
            (if now - hold_timer c \<ge> ms (hold_time_seconds cc) then
               (if conductivity > real (unat (setpoint cfg))
                then openValve now (transitionState now BD_STATE_BLOWING_DOWN
                       (c\<lparr>prop_blowdown_time := calculateProportionalTime conductivity c\<rparr>))
                else transitionState now BD_STATE_WAITING c)
             else c)
          else if state (status c) = BD_STATE_BLOWING_DOWN then
            (if now - blowdown_start_time (status c) \<ge> prop_blowdown_time c
             then hold_after_blow now c else c)
          else c
      | _ \<Rightarrow> c)"

definition checkBallValveComplete :: "u32 \<Rightarrow> BlowdownController \<Rightarrow> BlowdownController" where
  "checkBallValveComplete now c =
     (case config c of
        None \<Rightarrow> c
      | Some cfg \<Rightarrow>
          if now - valve_action_start c \<ge> ucast (ball_valve_delay cfg) * 1000 then
            (let c1 = c\<lparr>status := (status c)\<lparr>valve_open := valve_target_state c\<rparr>\<rparr> in
             if valve_target_state c
             then transitionState now BD_STATE_BLOWING_DOWN
                    (c1\<lparr>status := (status c1)\<lparr>blowdown_start_time := now\<rparr>\<rparr>)
             else transitionState now BD_STATE_IDLE c1)
          else c)"

definition checkTimeout :: "u32 \<Rightarrow> BlowdownController \<Rightarrow> BlowdownController" where
  "checkTimeout now c =
     (case config c of
        None \<Rightarrow> c
      | Some cfg \<Rightarrow>
          if time_limit_seconds cfg = 0 then c
          else if state (status c) = BD_STATE_BLOWING_DOWN
                  \<and> current_blowdown_time (status c) \<ge> ms (time_limit_seconds cfg) then
            (let c1 = closeValve now c;
                 c2 = c1\<lparr>status := (status c1)\<lparr>timeout_flag := True, waiting_for_reset := True\<rparr>,
                         config := map_option (\<lambda>cfg. cfg\<lparr>bc_timeout_flag := True\<rparr>) (config c1)\<rparr>
             in transitionState now BD_STATE_TIMEOUT c2)
          else c)"

definition sample_step :: "u32 \<Rightarrow> real \<Rightarrow> BlowdownController \<Rightarrow> BlowdownController" where
  \<comment> \<open>the dispatch on \<open>_cond_config\<close> and \<open>sample_mode\<close> inside \<open>update\<close>\<close>
  "sample_step now conductivity c =
     (case cond_config c of
        None \<Rightarrow> processContinuousMode now conductivity c
      | Some cc \<Rightarrow>
          (case sample_mode cc of
             SAMPLE_MODE_CONTINUOUS \<Rightarrow> processContinuousMode now conductivity c
           | SAMPLE_MODE_INTERMITTENT \<Rightarrow> processIntermittentMode now conductivity c
           | SAMPLE_MODE_TIMED_BLOWDOWN \<Rightarrow> processTimedBlowdown now conductivity c
           | SAMPLE_MODE_TIME_PROPORTIONAL \<Rightarrow> processTimeProportional now conductivity c))"

definition update :: "u32 \<Rightarrow> real \<Rightarrow> bool \<Rightarrow> BlowdownController \<Rightarrow> BlowdownController" where
  "update now conductivity flow_ok c0 =
     (let c = c0\<lparr>status := (status c0)\<lparr>last_conductivity := conductivity\<rparr>\<rparr> in
      if \<not> flow_ok then (if valve_open (status c) then closeValve now c else c)
      else
        let c1 = processHOA now c in
        if hoa_mode (status c1) \<noteq> HOA_AUTO then c1
        else if state (status c1) = BD_STATE_VALVE_OPENING
                \<or> state (status c1) = BD_STATE_VALVE_CLOSING
        then checkBallValveComplete now c1
        else
          let c2 = checkTimeout now (sample_step now conductivity c1) in
          if state (status c2) = BD_STATE_BLOWING_DOWN
          then c2\<lparr>status := (status c2)
                 \<lparr>current_blowdown_time := now - blowdown_start_time (status c2)\<rparr>\<rparr>
          else c2)"

text \<open>The controller as its constructor leaves it (\<open>memset\<close> zeroes the status), then
  \<open>configure\<close> and \<open>setConductivityConfig\<close>.\<close>

definition BlowdownController_init :: BlowdownController where
  "BlowdownController_init =
     \<lparr>config = None, cond_config = None,
      status = \<lparr>state = BD_STATE_IDLE, valve_open = False, relay_energized = False,
                hoa_mode = HOA_AUTO, state_start_time = 0, blowdown_start_time = 0,
                current_blowdown_time = 0, total_blowdown_time = 0,
                accumulated_blowdown_time = 0, timeout_flag = False, waiting_for_reset = False,
                last_conductivity = 0, trapped_sample_conductivity = 0\<rparr>,
      valve_action_start = 0, valve_target_state = False, interval_timer = 0,
      duration_timer = 0, hold_timer = 0, prop_blowdown_time = 0, hand_start_time = 0\<rparr>"

definition configure :: "blowdown_config_t option \<Rightarrow> BlowdownController \<Rightarrow> BlowdownController" where
  "configure cfg c =
     (case cfg of
        None \<Rightarrow> c\<lparr>config := None\<rparr>
      | Some k \<Rightarrow> c\<lparr>config := Some k, status := (status c)\<lparr>hoa_mode := bc_hoa_mode k\<rparr>\<rparr>)"

definition setConductivityConfig :: "conductivity_config_t option \<Rightarrow> BlowdownController \<Rightarrow> BlowdownController" where
  "setConductivityConfig cc c = c\<lparr>cond_config := cc\<rparr>"

fun run_ticks :: "BlowdownController \<Rightarrow> (u32 \<times> real \<times> bool) list \<Rightarrow> BlowdownController" where
  "run_ticks c [] = c"
| "run_ticks c ((now, conductivity, flow_ok) # ticks) =
     run_ticks (update now conductivity flow_ok c) ticks"

section \<open>chemical\_pump.h\<close>

datatype feed_mode_t =
  FEED_MODE_DISABLED | FEED_MODE_A_BLOWDOWN_FEED | FEED_MODE_B_PERCENT_BLOWDOWN
  | FEED_MODE_C_PERCENT_TIME | FEED_MODE_D_WATER_CONTACT | FEED_MODE_E_PADDLEWHEEL
  | FEED_MODE_S_SCHEDULED

datatype pump_state_t =
  PUMP_STATE_IDLE | PUMP_STATE_RUNNING | PUMP_STATE_PRIMING | PUMP_STATE_CALIBRATING
  | PUMP_STATE_LOCKED_OUT | PUMP_STATE_ERROR

text \<open>The fields of \<open>pump_config_t\<close> that the feed logic reads (the name, the meter
  assignment, the stepper speed settings and the persistent statistics are left out).
  Fields whose names the blowdown records already use carry the prefix \<open>pc_\<close>; those of
  \<open>pump_status_t\<close> the prefix \<open>p_\<close>.\<close>

record pump_config_t =
  pc_enabled :: bool
  feed_mode :: feed_mode_t
  pc_hoa_mode :: hoa_mode_t
  lockout_seconds :: u16
  percent_of_blowdown :: u8
  max_time_seconds :: u16
  percent_of_time :: u16
  cycle_time_seconds :: u16
  time_per_contact_ms :: u16
  contact_divider :: u8
  time_per_volume_ms :: u16
  volume_to_initiate :: u16
  pc_time_limit_seconds :: u16
  steps_per_ml :: u32

record pump_status_t =
  p_state :: pump_state_t
  p_enabled :: bool
  running :: bool
  p_hoa_mode :: hoa_mode_t
  start_time :: u32
  runtime_ms :: u32
  total_runtime_ms :: u32
  total_steps :: u32
  volume_dispensed_ml :: real
  lockout_end_time :: u32
  accumulated_feed_time :: u32
  contact_count :: u32
  accumulated_volume :: real

text \<open>
  The private members of \<open>ChemicalPump\<close>.  The AccelStepper object is an external
  library: what the pump commands (\<open>move\<close>, \<open>stop\<close>, \<open>run\<close>) is not part of the state,
  the driver enable line is \<open>driver_enabled\<close>, and what it reads back in \<open>update\<close>
  (\<open>distanceToGo() == 0\<close> and \<open>currentPosition()\<close>) is an input of the tick.
\<close>

record ChemicalPump =
  p_config :: "pump_config_t option"
  p_status :: pump_status_t
  target_steps :: u32
  target_time_ms :: u32
  time_limited :: bool
  steps_limited :: bool
  mode_b_accumulated_blowdown :: u32
  mode_a_was_blowing :: bool
  mode_c_cycle_start :: u32
  driver_enabled :: bool

section \<open>chemical\_pump.cpp\<close>

definition start :: "u32 \<Rightarrow> u32 \<Rightarrow> real \<Rightarrow> ChemicalPump \<Rightarrow> ChemicalPump" where
  "start now duration_ms volume_ml p =
     (if \<not> p_enabled (p_status p) then p
      else if p_state (p_status p) = PUMP_STATE_LOCKED_OUT \<and> now < lockout_end_time (p_status p)
      then p
      else
        let p1 = p\<lparr>driver_enabled := True,
                   p_status := (p_status p)\<lparr>p_state := PUMP_STATE_RUNNING, running := True,
                                            start_time := now, runtime_ms := 0\<rparr>\<rparr>;
            p2 = (case p_config p1 of
                    Some cfg \<Rightarrow>
                      if volume_ml > 0 \<and> steps_per_ml cfg > 0
                      then p1\<lparr>target_steps :=
                                of_nat (nat \<lfloor>volume_ml * real (unat (steps_per_ml cfg))\<rfloor>),
                              steps_limited := True\<rparr>
                      else p1\<lparr>steps_limited := False\<rparr>
                  | None \<Rightarrow> p1\<lparr>steps_limited := False\<rparr>)
        in if duration_ms > 0
           then p2\<lparr>target_time_ms := duration_ms, time_limited := True\<rparr>
           else p2\<lparr>time_limited := False\<rparr>)"

definition stop :: "ChemicalPump \<Rightarrow> ChemicalPump" where
  "stop p =
     p\<lparr>driver_enabled := False,
       p_status := (p_status p)
         \<lparr>running := False,
          p_state := (if p_state (p_status p) = PUMP_STATE_RUNNING then PUMP_STATE_IDLE
                      else p_state (p_status p))\<rparr>\<rparr>"

definition setEnabled :: "bool \<Rightarrow> ChemicalPump \<Rightarrow> ChemicalPump" where
  "setEnabled enable p =
     (let p1 = p\<lparr>p_status := (p_status p)\<lparr>p_enabled := enable\<rparr>,
                 p_config := map_option (\<lambda>cfg. cfg\<lparr>pc_enabled := enable\<rparr>) (p_config p)\<rparr>
      in if \<not> enable \<and> running (p_status p1) then stop p1 else p1)"

definition pump_setHOA :: "hoa_mode_t \<Rightarrow> ChemicalPump \<Rightarrow> ChemicalPump" where
  "pump_setHOA m p =
     p\<lparr>p_status := (p_status p)\<lparr>p_hoa_mode := m\<rparr>,
       p_config := map_option (\<lambda>cfg. cfg\<lparr>pc_hoa_mode := m\<rparr>) (p_config p)\<rparr>"

text \<open>
  \<open>ChemicalPump::processHOA\<close> keeps the Hand-mode start time in
  \<open>static uint32_t hand_start_time\<close>: one variable for the member function, hence for all
  pump objects.  It is threaded through as the first component of the pair.
\<close>

definition pump_processHOA :: "u32 \<Rightarrow> u32 \<times> ChemicalPump \<Rightarrow> u32 \<times> ChemicalPump" where
  "pump_processHOA now hp =
     (case hp of (hand_start, p) \<Rightarrow>
        (case p_hoa_mode (p_status p) of
           HOA_HAND \<Rightarrow>
             if \<not> running (p_status p)
             then (now, start now (HOA_HAND_TIMEOUT_SEC * 1000) 0 p)
             else if now - hand_start \<ge> HOA_HAND_TIMEOUT_SEC * 1000
             then (hand_start,
                   (stop p)\<lparr>p_status := (p_status (stop p))\<lparr>p_hoa_mode := HOA_AUTO\<rparr>\<rparr>)
             else (hand_start, p)
         | HOA_OFF \<Rightarrow> (hand_start, if running (p_status p) then stop p else p)
         | HOA_AUTO \<Rightarrow> (hand_start, p)))"

definition processModeA :: "u32 \<Rightarrow> bool \<Rightarrow> pump_config_t \<Rightarrow> ChemicalPump \<Rightarrow> ChemicalPump" where
  "processModeA now blowdown_active cfg p =
     (if blowdown_active then
        (let p1 = (if \<not> running (p_status p)
                   then (if lockout_seconds cfg > 0 then start now (ms (lockout_seconds cfg)) 0 p
                         else start now 0 0 p)
                   else p)
         in p1\<lparr>mode_a_was_blowing := True\<rparr>)
      else
        (let p1 = (if mode_a_was_blowing p \<and> running (p_status p) then stop p else p)
         in p1\<lparr>mode_a_was_blowing := False\<rparr>))"

definition processModeB :: "u32 \<Rightarrow> bool \<Rightarrow> u32 \<Rightarrow> pump_config_t \<Rightarrow> ChemicalPump \<Rightarrow> ChemicalPump" where
  \<comment> \<open>\<open>feed_time\<close> is computed in \<open>uint32_t\<close>: the product wraps before the division\<close>
  "processModeB now blowdown_active blowdown_time_ms cfg p =
     (if blowdown_active then
        (let p1 = p\<lparr>mode_b_accumulated_blowdown := blowdown_time_ms\<rparr>
         in if running (p_status p1) then stop p1 else p1)
      else if mode_b_accumulated_blowdown p > 0 \<and> \<not> running (p_status p) then
        (let feed_time = (mode_b_accumulated_blowdown p * ucast (percent_of_blowdown cfg)) div 100;
             feed_time = (if max_time_seconds cfg > 0 \<and> feed_time > ms (max_time_seconds cfg)
                          then ms (max_time_seconds cfg) else feed_time);
             p1 = (if feed_time > 0 then start now feed_time 0 p else p)
         in p1\<lparr>mode_b_accumulated_blowdown := 0\<rparr>)
      else p)"

definition processModeC :: "u32 \<Rightarrow> pump_config_t \<Rightarrow> ChemicalPump \<Rightarrow> ChemicalPump" where
  "processModeC now cfg p0 =
     (let p = (if mode_c_cycle_start p0 = 0 then p0\<lparr>mode_c_cycle_start := now\<rparr> else p0);
          cycle_time_ms = ms (cycle_time_seconds cfg);
          on_time_ms = (cycle_time_ms * ucast (percent_of_time cfg)) div 1000;
          elapsed = now - mode_c_cycle_start p
      in if elapsed < on_time_ms then
           (if \<not> running (p_status p) then start now (on_time_ms - elapsed) 0 p else p)
         else if elapsed \<ge> cycle_time_ms then p\<lparr>mode_c_cycle_start := now\<rparr>
         else (if running (p_status p) then stop p else p))"

definition run_accumulated :: "u32 \<Rightarrow> ChemicalPump \<Rightarrow> ChemicalPump" where
  \<comment> \<open>the block that ends modes D and E: run the accumulated feed time when the pump is idle\<close>
  "run_accumulated now p =
     (if accumulated_feed_time (p_status p) > 0 \<and> \<not> running (p_status p)
      then start now (accumulated_feed_time (p_status p)) 0
             (p\<lparr>p_status := (p_status p)\<lparr>accumulated_feed_time := 0\<rparr>\<rparr>)
      else p)"

definition add_feed_time :: "u16 \<Rightarrow> pump_config_t \<Rightarrow> pump_status_t \<Rightarrow> pump_status_t" where
  \<comment> \<open>\<open>accumulated_feed_time += t\<close>, capped at \<open>time_limit_seconds * 1000\<close> when that is set\<close>
  "add_feed_time t cfg s =
     (let a = accumulated_feed_time s + ucast t
      in s\<lparr>accumulated_feed_time :=
             (if pc_time_limit_seconds cfg > 0 \<and> a > ms (pc_time_limit_seconds cfg)
              then ms (pc_time_limit_seconds cfg) else a)\<rparr>)"

definition processModeD :: "u32 \<Rightarrow> u32 \<Rightarrow> pump_config_t \<Rightarrow> ChemicalPump \<Rightarrow> ChemicalPump" where
  "processModeD now water_contacts cfg p =
     (let s = (p_status p)\<lparr>contact_count := contact_count (p_status p) + water_contacts\<rparr>;
          s1 = (if contact_count s \<ge> ucast (contact_divider cfg)
                then (let s' = add_feed_time (time_per_contact_ms cfg) cfg s
                      in s'\<lparr>contact_count := contact_count s' - ucast (contact_divider cfg)\<rparr>)
                else s)
      in run_accumulated now (p\<lparr>p_status := s1\<rparr>))"

definition processModeE :: "u32 \<Rightarrow> real \<Rightarrow> pump_config_t \<Rightarrow> ChemicalPump \<Rightarrow> ChemicalPump" where
  "processModeE now water_volume cfg p =
     (let s = (p_status p)\<lparr>accumulated_volume := accumulated_volume (p_status p) + water_volume\<rparr>;
          s1 = (if accumulated_volume s \<ge> real (unat (volume_to_initiate cfg))
                then (let s' = add_feed_time (time_per_volume_ms cfg) cfg s
                      in s'\<lparr>accumulated_volume :=
                              accumulated_volume s' - real (unat (volume_to_initiate cfg))\<rparr>)
                else s)
      in run_accumulated now (p\<lparr>p_status := s1\<rparr>))"

definition processFeedMode :: "u32 \<Rightarrow> bool \<Rightarrow> u32 \<Rightarrow> u32 \<Rightarrow> real \<Rightarrow> ChemicalPump \<Rightarrow> ChemicalPump" where
  "processFeedMode now blowdown_active blowdown_time_ms water_contacts water_volume p =
     (case p_config p of
        None \<Rightarrow> p
      | Some cfg \<Rightarrow>
          if \<not> p_enabled (p_status p) then p
          else if p_hoa_mode (p_status p) \<noteq> HOA_AUTO then p
          else
            (case feed_mode cfg of
               FEED_MODE_A_BLOWDOWN_FEED \<Rightarrow> processModeA now blowdown_active cfg p
             | FEED_MODE_B_PERCENT_BLOWDOWN \<Rightarrow>
                 processModeB now blowdown_active blowdown_time_ms cfg p
             | FEED_MODE_C_PERCENT_TIME \<Rightarrow> processModeC now cfg p
             | FEED_MODE_D_WATER_CONTACT \<Rightarrow> processModeD now water_contacts cfg p
             | FEED_MODE_E_PADDLEWHEEL \<Rightarrow> processModeE now water_volume cfg p
             | _ \<Rightarrow> p))"

definition pump_checkTimeout :: "ChemicalPump \<Rightarrow> ChemicalPump" where
  "pump_checkTimeout p =
     (case p_config p of
        None \<Rightarrow> p
      | Some cfg \<Rightarrow>
          if \<not> running (p_status p) then p
          else if pc_time_limit_seconds cfg > 0
                  \<and> runtime_ms (p_status p) \<ge> ms (pc_time_limit_seconds cfg)
          then (stop p)\<lparr>p_status := (p_status (stop p))\<lparr>p_state := PUMP_STATE_LOCKED_OUT\<rparr>\<rparr>
          else p)"

definition updateStats :: "u32 \<Rightarrow> int \<Rightarrow> ChemicalPump \<Rightarrow> ChemicalPump" where
  "updateStats now steps p =
     (if running (p_status p) then
        (let delta = now - start_time (p_status p);
             s = (p_status p)\<lparr>runtime_ms := delta,
                               total_runtime_ms := total_runtime_ms (p_status p) + delta,
                               total_steps := total_steps (p_status p) + of_int \<bar>steps\<bar>\<rparr>
         in p\<lparr>p_status :=
                (case p_config p of
                   Some cfg \<Rightarrow>
                     if steps_per_ml cfg > 0
                     then s\<lparr>volume_dispensed_ml :=
                              real (unat (total_steps s)) / real (unat (steps_per_ml cfg))\<rparr>
                     else s
                 | None \<Rightarrow> s)\<rparr>)
      else p)"

text \<open>\<open>ChemicalPump::update\<close>; \<open>dist_zero\<close> is \<open>_stepper.distanceToGo() == 0\<close> and
  \<open>steps\<close> is \<open>_stepper.currentPosition()\<close>.\<close>

definition pump_update :: "u32 \<Rightarrow> bool \<times> int \<Rightarrow> u32 \<times> ChemicalPump \<Rightarrow> u32 \<times> ChemicalPump" where
  "pump_update now reading hp =
     (case reading of (dist_zero, steps) \<Rightarrow>
      (case pump_processHOA now hp of (hand_start, p1) \<Rightarrow>
         let p2 = pump_checkTimeout p1 in
         if running (p_status p2) then
           (let p3 = (if steps_limited p2 \<and> dist_zero then stop p2 else p2);
                p4 = (if time_limited p3 \<and> now - start_time (p_status p3) \<ge> target_time_ms p3
                      then stop p3 else p3)
            in (hand_start, updateStats now steps p4))
         else (hand_start, p2)))"

text \<open>\<open>PumpManager::update\<close> runs \<open>update\<close> on the pumps in order; the static variable of
  \<open>processHOA\<close> passes from one pump to the next.\<close>

fun update_pumps :: "u32 \<Rightarrow> (bool \<times> int) list \<Rightarrow> u32 \<times> ChemicalPump list \<Rightarrow> u32 \<times> ChemicalPump list" where
  "update_pumps now (r # rs) (h, p # ps) =
     (case pump_update now r (h, p) of (h1, p1) \<Rightarrow>
        (case update_pumps now rs (h1, ps) of (h2, ps1) \<Rightarrow> (h2, p1 # ps1)))"
| "update_pumps now rs (h, ps) = (h, ps)"

record PumpManager =
  pumps :: "ChemicalPump list"
  emergency_stop :: bool
  pump_hand_start_time :: u32

definition PumpManager_update :: "u32 \<Rightarrow> (bool \<times> int) list \<Rightarrow> PumpManager \<Rightarrow> PumpManager" where
  "PumpManager_update now readings m =
     (if emergency_stop m then m
      else (case update_pumps now readings (pump_hand_start_time m, pumps m) of
              (h, ps) \<Rightarrow> m\<lparr>pumps := ps, pump_hand_start_time := h\<rparr>))"

text \<open>A pump as its constructor leaves it, then \<open>configure\<close>.\<close>

definition ChemicalPump_init :: ChemicalPump where
  "ChemicalPump_init =
     \<lparr>p_config = None,
      p_status = \<lparr>p_state = PUMP_STATE_IDLE, p_enabled = False, running = False,
                  p_hoa_mode = HOA_AUTO, start_time = 0, runtime_ms = 0, total_runtime_ms = 0,
                  total_steps = 0, volume_dispensed_ml = 0, lockout_end_time = 0,
                  accumulated_feed_time = 0, contact_count = 0, accumulated_volume = 0\<rparr>,
      target_steps = 0, target_time_ms = 0, time_limited = False, steps_limited = False,
      mode_b_accumulated_blowdown = 0, mode_a_was_blowing = False, mode_c_cycle_start = 0,
      driver_enabled = False\<rparr>"

definition pump_configure :: "pump_config_t option \<Rightarrow> ChemicalPump \<Rightarrow> ChemicalPump" where
  "pump_configure cfg p =
     (case cfg of
        None \<Rightarrow> p\<lparr>p_config := None\<rparr>
      | Some k \<Rightarrow> p\<lparr>p_config := Some k,
                     p_status := (p_status p)\<lparr>p_enabled := pc_enabled k,
                                              p_hoa_mode := pc_hoa_mode k\<rparr>\<rparr>)"

section \<open>fuzzy\_logic.h\<close>

text \<open>
  The fuzzy controller computes in \<open>float\<close>; the model computes in the reals.  Term and
  variable indices (\<open>uint8_t\<close>) never overflow and are natural numbers.
\<close>

definition FUZZY_MAX_INPUTS :: nat where "FUZZY_MAX_INPUTS = 6"
definition FUZZY_MAX_OUTPUTS :: nat where "FUZZY_MAX_OUTPUTS = 4"
definition FUZZY_MAX_SETS :: nat where "FUZZY_MAX_SETS = 7"
definition FUZZY_RESOLUTION :: nat where "FUZZY_RESOLUTION = 101"

definition FUZZY_IN_TDS :: nat where "FUZZY_IN_TDS = 0"
definition FUZZY_IN_ALKALINITY :: nat where "FUZZY_IN_ALKALINITY = 1"
definition FUZZY_IN_SULFITE :: nat where "FUZZY_IN_SULFITE = 2"
definition FUZZY_IN_PH :: nat where "FUZZY_IN_PH = 3"
definition FUZZY_IN_TEMPERATURE :: nat where "FUZZY_IN_TEMPERATURE = 4"
definition FUZZY_IN_TREND :: nat where "FUZZY_IN_TREND = 5"

definition FUZZY_OUT_BLOWDOWN :: nat where "FUZZY_OUT_BLOWDOWN = 0"
definition FUZZY_OUT_CAUSTIC :: nat where "FUZZY_OUT_CAUSTIC = 1"
definition FUZZY_OUT_SULFITE :: nat where "FUZZY_OUT_SULFITE = 2"
definition FUZZY_OUT_ACID :: nat where "FUZZY_OUT_ACID = 3"

datatype mf_type_t =
  MF_TRIANGULAR | MF_TRAPEZOIDAL | MF_GAUSSIAN | MF_SIGMOID_LEFT | MF_SIGMOID_RIGHT
  | MF_SINGLETON

text \<open>The enumeration \<open>linguistic_term_t\<close> has seven values, numbered from 0.  The
  shorthand macros of the rule table name five of them (the shorthands for
  \<open>TERM_MEDIUM_LOW\<close> and \<open>TERM_MEDIUM_HIGH\<close> are not used by any rule).\<close>

definition TERM_VERY_LOW :: nat where "TERM_VERY_LOW = 0"
definition TERM_LOW :: nat where "TERM_LOW = 1"
definition TERM_MEDIUM_LOW :: nat where "TERM_MEDIUM_LOW = 2"
definition TERM_MEDIUM :: nat where "TERM_MEDIUM = 3"
definition TERM_MEDIUM_HIGH :: nat where "TERM_MEDIUM_HIGH = 4"
definition TERM_HIGH :: nat where "TERM_HIGH = 5"
definition TERM_VERY_HIGH :: nat where "TERM_VERY_HIGH = 6"
definition DONT_CARE :: nat where "DONT_CARE = 255"

definition VL :: nat where "VL = TERM_VERY_LOW"
definition LO :: nat where "LO = TERM_LOW"
definition MD :: nat where "MD = TERM_MEDIUM"
definition HI :: nat where "HI = TERM_HIGH"
definition VH :: nat where "VH = TERM_VERY_HIGH"
definition DC :: nat where "DC = DONT_CARE"

record membership_func_t =
  mf_type :: mf_type_t
  params :: "real list"

record linguistic_var_t =
  min_value :: real
  max_value :: real
  num_sets :: nat
  sets :: "membership_func_t list"

record fuzzy_rule_t =
  antecedent :: "nat list"
  consequent :: "nat list"
  weight :: real
  enabled :: bool

record fuzzy_result_t =
  blowdown_rate :: real
  caustic_rate :: real
  sulfite_rate :: real
  acid_rate :: real
  max_firing_strength :: real
  active_rules :: nat
  dominant_rule :: nat

text \<open>Of \<open>fuzzy_inputs_t\<close>, \<open>evaluate\<close> reads the temperature and the trend only; the
  manual readings come from \<open>setManualInput\<close>.  Of \<open>fuzzy_config_t\<close>, the setpoints and
  deadbands shape the membership functions.\<close>

record fuzzy_inputs_t =
  in_conductivity :: real
  in_alkalinity :: real
  in_sulfite :: real
  in_ph :: real
  in_temperature :: real
  in_cond_trend :: real
  in_alkalinity_valid :: bool
  in_sulfite_valid :: bool
  in_ph_valid :: bool

record fuzzy_config_t =
  cond_setpoint :: real
  alk_setpoint :: real
  sulfite_setpoint :: real
  ph_setpoint :: real
  cond_deadband :: real
  alk_deadband :: real
  sulfite_deadband :: real
  ph_deadband :: real

text \<open>The members of \<open>FuzzyController\<close>: \<open>f_rules\<close> holds the first \<open>_num_rules\<close> entries
  of \<open>_rules\<close>, \<open>input_membership\<close> is the 6 by 7 array of the last fuzzification.\<close>

record FuzzyController =
  f_config :: "fuzzy_config_t option"
  f_inputs :: "linguistic_var_t list"
  f_outputs :: "linguistic_var_t list"
  f_rules :: "fuzzy_rule_t list"
  input_membership :: "real list list"
  manual_values :: "real list"
  manual_valid :: "bool list"

section \<open>fuzzy\_logic.cpp\<close>

definition tri :: "real \<Rightarrow> real \<Rightarrow> real \<Rightarrow> membership_func_t" where
  \<comment> \<open>\<open>{MF_TRIANGULAR, {a, b, c}, name}\<close>; the fourth parameter is zero-initialised\<close>
  "tri a b c = \<lparr>mf_type = MF_TRIANGULAR, params = [a, b, c, 0]\<rparr>"

definition trap :: "real \<Rightarrow> real \<Rightarrow> real \<Rightarrow> real \<Rightarrow> membership_func_t" where
  "trap a b c d = \<lparr>mf_type = MF_TRAPEZOIDAL, params = [a, b, c, d]\<rparr>"

definition output_sets :: "membership_func_t list" where
  \<comment> \<open>Zero, Low, Medium, High, VeryHigh: the same five triangles for each output\<close>
  "output_sets = [tri 0 0 25, tri 0 25 50, tri 25 50 75, tri 50 75 100, tri 75 100 100]"

definition initOutputVariables :: "linguistic_var_t list" where
  "initOutputVariables =
     replicate 4 \<lparr>min_value = 0, max_value = 100, num_sets = 5, sets = output_sets\<rparr>"

text \<open>\<open>initInputVariables\<close> followed by \<open>updateMembershipFunctions\<close>: the ranges and set
  counts, and the sets placed around each setpoint \<open>sp\<close> with deadband \<open>db\<close>.\<close>

definition updateMembershipFunctions :: "fuzzy_config_t \<Rightarrow> linguistic_var_t list" where
  "updateMembershipFunctions cfg =
     [ (let sp = cond_setpoint cfg; db = cond_deadband cfg in
        \<lparr>min_value = 0, max_value = 5000, num_sets = 5,
         sets = [trap 0 0 (sp * 0.5) (sp * 0.7), tri (sp * 0.5) (sp * 0.75) (sp - db),
                 tri (sp - db * 2) sp (sp + db * 2), tri (sp + db) (sp * 1.25) (sp * 1.5),
                 trap (sp * 1.3) (sp * 1.5) 5000 5000]\<rparr>),
       (let sp = alk_setpoint cfg; db = alk_deadband cfg in
        \<lparr>min_value = 0, max_value = 1000, num_sets = 5,
         sets = [trap 0 0 (sp * 0.3) (sp * 0.5), tri (sp * 0.4) (sp * 0.6) (sp - db),
                 tri (sp - db * 2) sp (sp + db * 2), tri (sp + db) (sp * 1.4) (sp * 1.8),
                 trap (sp * 1.5) (sp * 2.0) 1000 1000]\<rparr>),
       (let sp = sulfite_setpoint cfg; db = sulfite_deadband cfg in
        \<lparr>min_value = 0, max_value = 100, num_sets = 5,
         sets = [trap 0 0 (sp * 0.2) (sp * 0.4), tri (sp * 0.3) (sp * 0.5) (sp - db),
                 tri (sp - db * 2) sp (sp + db * 2), tri (sp + db) (sp * 1.5) (sp * 2.0),
                 trap (sp * 1.8) (sp * 2.5) 100 100]\<rparr>),
       (let sp = ph_setpoint cfg; db = ph_deadband cfg in
        \<lparr>min_value = 7, max_value = 14, num_sets = 5,
         sets = [trap 7 7 9 10, tri 9.5 10.5 (sp - db), tri (sp - db) sp (sp + db),
                 tri (sp + db) 12 12.5, trap 12 12.5 14 14]\<rparr>),
       \<lparr>min_value = 0, max_value = 100, num_sets = 3,
        sets = [trap 0 0 20 40, tri 30 50 70, trap 60 80 100 100]\<rparr>,
       \<lparr>min_value = - 100, max_value = 100, num_sets = 5,
        sets = [trap (- 100) (- 100) (- 30) (- 10), tri (- 20) (- 5) 0, tri (- 5) 0 5,
                tri 0 5 20, trap 10 30 100 100]\<rparr> ]"

definition rule :: "nat list \<Rightarrow> nat list \<Rightarrow> real \<Rightarrow> fuzzy_rule_t" where
  \<comment> \<open>\<open>{{antecedent}, {consequent}, weight, true}\<close>\<close>
  "rule a c w = \<lparr>antecedent = a, consequent = c, weight = w, enabled = True\<rparr>"

definition loadDefaultRules :: "fuzzy_rule_t list" where
  "loadDefaultRules =
     [ rule [VH, DC, DC, DC, DC, DC] [VH, DC, DC, DC] 1,
       rule [HI, DC, DC, DC, DC, DC] [HI, DC, DC, DC] 1,
       rule [MD, DC, DC, DC, DC, DC] [VL, DC, DC, DC] 1,
       rule [LO, DC, DC, DC, DC, DC] [VL, DC, DC, DC] 1,
       rule [HI, DC, DC, DC, DC, VH] [VH, DC, DC, DC] 1,
       rule [DC, VL, DC, DC, DC, DC] [DC, VH, DC, DC] 1,
       rule [DC, LO, DC, DC, DC, DC] [DC, HI, DC, DC] 1,
       rule [DC, MD, DC, DC, DC, DC] [DC, VL, DC, DC] 1,
       rule [DC, HI, DC, DC, DC, DC] [MD, VL, DC, DC] 0.8,
       rule [DC, VH, DC, DC, DC, DC] [HI, VL, DC, DC] 0.9,
       rule [DC, DC, VL, DC, DC, DC] [DC, DC, VH, DC] 1,
       rule [DC, DC, LO, DC, DC, DC] [DC, DC, HI, DC] 1,
       rule [DC, DC, MD, DC, DC, DC] [DC, DC, LO, DC] 1,
       rule [DC, DC, HI, DC, DC, DC] [DC, DC, VL, DC] 1,
       rule [DC, DC, VH, DC, DC, DC] [LO, DC, VL, DC] 0.7,
       rule [DC, DC, DC, VL, DC, DC] [DC, HI, DC, VL] 1,
       rule [DC, DC, DC, LO, DC, DC] [DC, MD, DC, VL] 0.8,
       rule [DC, DC, DC, MD, DC, DC] [DC, VL, DC, VL] 0.5,
       rule [DC, DC, DC, HI, DC, DC] [DC, VL, DC, LO] 0.7,
       rule [DC, DC, DC, VH, DC, DC] [DC, VL, DC, MD] 0.9,
       rule [HI, HI, DC, DC, DC, DC] [VH, VL, DC, DC] 1,
       rule [LO, LO, DC, DC, DC, DC] [VL, HI, DC, DC] 0.9,
       rule [DC, DC, LO, DC, HI, DC] [DC, DC, VH, DC] 1,
       rule [MD, MD, MD, DC, DC, DC] [VL, VL, LO, VL] 1,
       rule [DC, DC, DC, DC, DC, VH] [MD, DC, DC, DC] 0.8 ]"

text \<open>The controller after its constructor (all arrays zeroed, so no manual input is
  valid) and \<open>begin(config)\<close>.\<close>

definition fuzzy_begin :: "fuzzy_config_t \<Rightarrow> FuzzyController" where
  "fuzzy_begin cfg =
     \<lparr>f_config = Some cfg, f_inputs = updateMembershipFunctions cfg,
      f_outputs = initOutputVariables, f_rules = loadDefaultRules,
      input_membership = replicate 6 (replicate 7 0),
      manual_values = replicate 6 0, manual_valid = replicate 6 False\<rparr>"

definition setManualInput :: "nat \<Rightarrow> real \<Rightarrow> bool \<Rightarrow> FuzzyController \<Rightarrow> FuzzyController" where
  "setManualInput param v valid fc =
     (if param < FUZZY_MAX_INPUTS
      then fc\<lparr>manual_values := (manual_values fc)[param := v],
              manual_valid := (manual_valid fc)[param := valid]\<rparr>
      else fc)"

definition evaluateMF :: "membership_func_t \<Rightarrow> real \<Rightarrow> real \<Rightarrow> real \<Rightarrow> real" where
  \<comment> \<open>The triangle and the trapezoid divide only by a difference that is non-zero on the
      branch taken.  A Gaussian with \<open>sigma = 0\<close> divides by zero in the source; no
      variable of the controller uses that shape.\<close>
  "evaluateMF mf v min_val max_val =
     (case mf_type mf of
        MF_TRIANGULAR \<Rightarrow>
          (let a = params mf ! 0; b = params mf ! 1; c = params mf ! 2 in
           if v \<le> a \<or> v \<ge> c then 0
           else if v \<le> b then (v - a) / (b - a)
           else (c - v) / (c - b))
      | MF_TRAPEZOIDAL \<Rightarrow>
          (let a = params mf ! 0; b = params mf ! 1; c = params mf ! 2; d = params mf ! 3 in
           if v \<le> a \<or> v \<ge> d then 0
           else if v \<ge> b \<and> v \<le> c then 1
           else if v < b then (v - a) / (b - a)
           else (d - v) / (d - c))
      | MF_GAUSSIAN \<Rightarrow>
          (let a = params mf ! 0; b = params mf ! 1 in exp (- 0.5 * ((v - a) / b)\<^sup>2))
      | MF_SIGMOID_LEFT \<Rightarrow>
          (let a = params mf ! 0; b = params mf ! 1 in 1 / (1 + exp (b * (v - a))))
      | MF_SIGMOID_RIGHT \<Rightarrow>
          (let a = params mf ! 0; b = params mf ! 1 in 1 / (1 + exp (- b * (v - a))))
      | MF_SINGLETON \<Rightarrow> (if \<bar>v - params mf ! 0\<bar> < 0.001 then 1 else 0))"

definition fuzzify :: "linguistic_var_t \<Rightarrow> real \<Rightarrow> real list \<Rightarrow> real list" where
  \<comment> \<open>writes \<open>degrees[i]\<close> for \<open>i < num_sets\<close> and leaves the rest of the row\<close>
  "fuzzify var v degrees =
     map (\<lambda>i. if i < num_sets var
               then evaluateMF (sets var ! i) v (min_value var) (max_value var)
               else degrees ! i)
       [0..<FUZZY_MAX_SETS]"

definition assume_normal :: "real list" where
  \<comment> \<open>\<open>memset\<close> of the row, then \<open>row[2] = 1.0f\<close>\<close>
  "assume_normal = (replicate FUZZY_MAX_SETS 0)[2 := 1]"

definition fuzzify_manual :: "FuzzyController \<Rightarrow> nat \<Rightarrow> real list" where
  "fuzzify_manual fc i =
     (if manual_valid fc ! i
      then fuzzify (f_inputs fc ! i) (manual_values fc ! i) (input_membership fc ! i)
      else assume_normal)"

definition fuzzify_inputs :: "fuzzy_inputs_t \<Rightarrow> FuzzyController \<Rightarrow> real list list" where
  \<comment> \<open>step 1 of \<open>evaluate\<close>: the new contents of \<open>_input_membership\<close>\<close>
  "fuzzify_inputs inp fc =
     [ fuzzify_manual fc FUZZY_IN_TDS, fuzzify_manual fc FUZZY_IN_ALKALINITY,
       fuzzify_manual fc FUZZY_IN_SULFITE, fuzzify_manual fc FUZZY_IN_PH,
       fuzzify (f_inputs fc ! FUZZY_IN_TEMPERATURE) (in_temperature inp)
         (input_membership fc ! FUZZY_IN_TEMPERATURE),
       fuzzify (f_inputs fc ! FUZZY_IN_TREND) (in_cond_trend inp)
         (input_membership fc ! FUZZY_IN_TREND) ]"

definition firing_strength :: "FuzzyController \<Rightarrow> real list list \<Rightarrow> fuzzy_rule_t \<Rightarrow> real" where
  \<comment> \<open>the minimum over the antecedent terms that are neither \<open>DONT_CARE\<close> nor out of the
      variable's range of sets, times the rule weight\<close>
  "firing_strength fc mem r =
     fold (\<lambda>i fs. let term = antecedent r ! i in
                   if term = DONT_CARE \<or> term \<ge> num_sets (f_inputs fc ! i) then fs
                   else min fs (mem ! i ! term))
       [0..<FUZZY_MAX_INPUTS] 1
     * weight r"

definition crisp :: "linguistic_var_t \<Rightarrow> nat \<Rightarrow> real" where
  "crisp var x =
     min_value var + (max_value var - min_value var) * real x / real (FUZZY_RESOLUTION - 1)"

definition clip_into :: "linguistic_var_t \<Rightarrow> nat \<Rightarrow> real \<Rightarrow> real list \<Rightarrow> real list" where
  \<comment> \<open>the innermost loop over \<open>x\<close>, in step with the aggregate's \<open>FUZZY_RESOLUTION\<close>
      entries: sample the consequent set, clip it at the firing strength and take the
      maximum with the aggregate\<close>
  "clip_into out_var term fs agg =
     map (\<lambda>(x, a). max a
                 (min (evaluateMF (sets out_var ! term) (crisp out_var x)
                        (min_value out_var) (max_value out_var)) fs))
       (zip [0..<FUZZY_RESOLUTION] agg)"

definition aggregate_rule :: "FuzzyController \<Rightarrow> fuzzy_rule_t \<Rightarrow> real \<Rightarrow> real list list \<Rightarrow> real list list" where
  "aggregate_rule fc r fs aggs =
     map (\<lambda>k. let term = consequent r ! k in
               if term = DONT_CARE \<or> term \<ge> num_sets (f_outputs fc ! k) then aggs ! k
               else clip_into (f_outputs fc ! k) term fs (aggs ! k))
       [0..<FUZZY_MAX_OUTPUTS]"

text \<open>The state of the rule loop: the four aggregated curves and the diagnostics.\<close>

record rule_acc =
  aggregation :: "real list list"
  acc_active :: nat
  acc_max :: real
  acc_dominant :: nat

definition apply_rule :: "FuzzyController \<Rightarrow> real list list \<Rightarrow> nat \<times> fuzzy_rule_t \<Rightarrow> rule_acc \<Rightarrow> rule_acc" where
  "apply_rule fc mem ir acc =
     (case ir of (r, ru) \<Rightarrow>
        if \<not> enabled ru then acc
        else
          let fs = firing_strength fc mem ru in
          if fs < 0.001 then acc
          else
            acc\<lparr>aggregation := aggregate_rule fc ru fs (aggregation acc),
                acc_active := acc_active acc + 1,
                acc_max := (if fs > acc_max acc then fs else acc_max acc),
                acc_dominant := (if fs > acc_max acc then r else acc_dominant acc)\<rparr>)"

definition defuzzify :: "linguistic_var_t \<Rightarrow> real list \<Rightarrow> real" where
  "defuzzify var aggregated =
     (let sum_weighted = (\<Sum>(x, a)\<leftarrow>zip [0..<FUZZY_RESOLUTION] aggregated. crisp var x * a);
          sum_membership = (\<Sum>(x, a)\<leftarrow>zip [0..<FUZZY_RESOLUTION] aggregated. a)
      in if sum_membership < 0.001 then 0 else sum_weighted / sum_membership)"

definition infer :: "FuzzyController \<Rightarrow> real list list \<Rightarrow> fuzzy_result_t" where
  \<comment> \<open>steps 2 and 3 of \<open>evaluate\<close>: the rule loop and the four centroids;
      \<open>dominant_rule\<close> starts at 0 with the zero-initialised result\<close>
  "infer fc mem =
     (let acc = fold (apply_rule fc mem) (zip [0..<length (f_rules fc)] (f_rules fc))
                  \<lparr>aggregation = replicate FUZZY_MAX_OUTPUTS (replicate FUZZY_RESOLUTION 0),
                   acc_active = 0, acc_max = 0, acc_dominant = 0\<rparr>
      in \<lparr>blowdown_rate =
            defuzzify (f_outputs fc ! FUZZY_OUT_BLOWDOWN) (aggregation acc ! FUZZY_OUT_BLOWDOWN),
          caustic_rate =
            defuzzify (f_outputs fc ! FUZZY_OUT_CAUSTIC) (aggregation acc ! FUZZY_OUT_CAUSTIC),
          sulfite_rate =
            defuzzify (f_outputs fc ! FUZZY_OUT_SULFITE) (aggregation acc ! FUZZY_OUT_SULFITE),
          acid_rate =
            defuzzify (f_outputs fc ! FUZZY_OUT_ACID) (aggregation acc ! FUZZY_OUT_ACID),
          max_firing_strength = acc_max acc, active_rules = acc_active acc,
          dominant_rule = acc_dominant acc\<rparr>)"

definition zero_result :: fuzzy_result_t where
  "zero_result =
     \<lparr>blowdown_rate = 0, caustic_rate = 0, sulfite_rate = 0, acid_rate = 0,
      max_firing_strength = 0, active_rules = 0, dominant_rule = 0\<rparr>"

definition evaluate :: "fuzzy_inputs_t \<Rightarrow> FuzzyController \<Rightarrow> fuzzy_result_t \<times> FuzzyController" where
  "evaluate inp fc =
     (case f_config fc of
        None \<Rightarrow> (zero_result, fc)
      | Some cfg \<Rightarrow>
          let mem = fuzzify_inputs inp fc
          in (infer fc mem, fc\<lparr>input_membership := mem\<rparr>))"

section \<open>web\_server.cpp\<close>

definition confidence :: "bool \<Rightarrow> bool \<Rightarrow> bool \<Rightarrow> string" where
  \<comment> \<open>\<open>handleGetFuzzy\<close>: conductivity always counts as valid, then the three manual tests\<close>
  "confidence alk_valid sulf_valid ph_valid =
     (let valid_inputs = (1::nat) + (if alk_valid then 1 else 0) + (if sulf_valid then 1 else 0)
                         + (if ph_valid then 1 else 0)
      in if valid_inputs = 4 then ''HIGH'' else if valid_inputs \<ge> 2 then ''MEDIUM'' else ''LOW'')"

section \<open>Auxiliary definitions for the proofs\<close>

text \<open>The first statement of \<open>update\<close>, \<open>_status.last_conductivity = conductivity\<close>.\<close>

definition set_last :: "real \<Rightarrow> BlowdownController \<Rightarrow> BlowdownController" where
  "set_last x c = c\<lparr>status := (status c)\<lparr>last_conductivity := x\<rparr>\<rparr>"

text \<open>What no valve operation and no sampling mode writes.\<close>

definition keeps :: "BlowdownController \<Rightarrow> BlowdownController \<Rightarrow> bool" where
  "keeps c c' \<longleftrightarrow>
     config c' = config c \<and> cond_config c' = cond_config c
     \<and> hoa_mode (status c') = hoa_mode (status c)
     \<and> timeout_flag (status c') = timeout_flag (status c)
     \<and> waiting_for_reset (status c') = waiting_for_reset (status c)
     \<and> current_blowdown_time (status c') = current_blowdown_time (status c)"



text \<open>The value of \<open>calculateProportionalTime\<close> as a function of the numbers it reads:
  \<open>sp\<close> is the setpoint, \<open>pb\<close> the proportional band, \<open>m\<close> the cap in milliseconds
  and \<open>v\<close> the conductivity.\<close>

definition prop_time_ms :: "real \<Rightarrow> real \<Rightarrow> nat \<Rightarrow> real \<Rightarrow> nat" where
  "prop_time_ms sp pb m v =
     (if fl32 (v - sp) \<le> 0 then 0
      else nat \<lfloor>fl32 ((if 1 < fl32 (fl32 (v - sp) / pb) then 1 else fl32 (fl32 (v - sp) / pb))
                        * real m)\<rfloor>)"

text \<open>When the sampling modes may command the valve open: the interval has elapsed in
  Idle or Waiting, or the hold time has elapsed in Holding with conductivity above the
  setpoint.\<close>

definition scheduled_open :: "u32 \<Rightarrow> real \<Rightarrow> conductivity_config_t \<Rightarrow> BlowdownController \<Rightarrow> bool" where
  "scheduled_open now v cc c \<longleftrightarrow>
     (\<exists>cfg. config c = Some cfg
        \<and> (((state (status c) = BD_STATE_IDLE \<or> state (status c) = BD_STATE_WAITING)
             \<and> ms (interval_seconds cc) \<le> now - interval_timer c)
           \<or> (state (status c) = BD_STATE_HOLDING
               \<and> ms (hold_time_seconds cc) \<le> now - hold_timer c
               \<and> real (unat (setpoint cfg)) < v)))"

section \<open>Concrete configurations and scenarios\<close>

text \<open>The defaults of \<open>config.h\<close> (setpoint 2500 uS/cm, deadband 50, direction HIGH) with
  a solenoid valve and a 300 s blowdown limit, and with a motorized ball valve that takes
  5 s to travel.\<close>

definition solenoid_config :: blowdown_config_t where
  "solenoid_config =
     \<lparr>setpoint = 2500, deadband = 50, time_limit_seconds = 300, control_direction = 0,
      ball_valve_delay = 0, bc_hoa_mode = HOA_AUTO, bc_timeout_flag = False,
      accumulated_time = 0\<rparr>"

definition ball_valve_config :: blowdown_config_t where
  "ball_valve_config =
     \<lparr>setpoint = 2500, deadband = 50, time_limit_seconds = 0, control_direction = 0,
      ball_valve_delay = 5, bc_hoa_mode = HOA_AUTO, bc_timeout_flag = False,
      accumulated_time = 0\<rparr>"

definition intermittent_config :: conductivity_config_t where
  "intermittent_config =
     \<lparr>sample_mode = SAMPLE_MODE_INTERMITTENT, interval_seconds = 3600, duration_seconds = 300,
      hold_time_seconds = 60, blow_time_seconds = 600, prop_band = 200,
      max_prop_time_seconds = 600\<rparr>"

definition proportional_config :: conductivity_config_t where
  "proportional_config = intermittent_config\<lparr>sample_mode := SAMPLE_MODE_TIME_PROPORTIONAL\<rparr>"

definition solenoid_controller :: BlowdownController where
  "solenoid_controller = configure (Some solenoid_config) BlowdownController_init"

definition ball_valve_controller :: BlowdownController where
  "ball_valve_controller = configure (Some ball_valve_config) BlowdownController_init"

definition intermittent_controller :: BlowdownController where
  "intermittent_controller =
     setConductivityConfig (Some intermittent_config) solenoid_controller"

definition proportional_controller :: BlowdownController where
  "proportional_controller =
     setConductivityConfig (Some proportional_config) solenoid_controller"

text \<open>The solenoid controller after a discharge of 300 s: the valve opens at 1000 ms on a
  conductivity of 2600, and the tick at 301000 ms records a discharge time of 300000 ms.
  And the same controller after the next tick has closed the valve on 2440, below the
  deadband: the recorded discharge time stays.\<close>

definition long_discharge_controller :: BlowdownController where
  "long_discharge_controller =
     update 301000 2600 True (update 1000 2600 True solenoid_controller)"

definition closed_after_discharge :: BlowdownController where
  "closed_after_discharge = update 301050 2440 True long_discharge_controller"

text \<open>A pump in feed mode B: 50 percent of the blowdown time, at most 60 s.\<close>

definition mode_b_config :: pump_config_t where
  "mode_b_config =
     \<lparr>pc_enabled = True, feed_mode = FEED_MODE_B_PERCENT_BLOWDOWN, pc_hoa_mode = HOA_AUTO,
      lockout_seconds = 0, percent_of_blowdown = 50, max_time_seconds = 60,
      percent_of_time = 0, cycle_time_seconds = 0, time_per_contact_ms = 0,
      contact_divider = 1, time_per_volume_ms = 0, volume_to_initiate = 1,
      pc_time_limit_seconds = 120, steps_per_ml = 200\<rparr>"

definition mode_b_pump :: ChemicalPump where
  "mode_b_pump = pump_configure (Some mode_b_config) ChemicalPump_init"

text \<open>A pump that is started at 1000 ms and runs through its time limit of 120 s: the tick at
  121000 ms records a run time of 120000 ms and the tick at 121100 ms finds the limit
  reached.  And a pump switched to Hand.\<close>

definition timed_out_pump :: ChemicalPump where
  "timed_out_pump =
     snd (pump_update 121100 (False, 0)
            (pump_update 121000 (False, 0) (0, start 1000 0 0 mode_b_pump)))"

definition hand_pump :: ChemicalPump where
  "hand_pump = pump_setHOA HOA_HAND mode_b_pump"

text \<open>A fuzzy configuration with typical boiler setpoints, the controller after the
  operator has entered all four manual readings exactly at those setpoints, and the
  controller before any manual reading is entered.\<close>

definition typical_fuzzy_config :: fuzzy_config_t where
  "typical_fuzzy_config =
     \<lparr>cond_setpoint = 2500, alk_setpoint = 300, sulfite_setpoint = 30, ph_setpoint = 11,
      cond_deadband = 100, alk_deadband = 50, sulfite_deadband = 5, ph_deadband = 0.5\<rparr>"

definition at_setpoints :: FuzzyController where
  "at_setpoints =
     setManualInput FUZZY_IN_PH 11 True
       (setManualInput FUZZY_IN_SULFITE 30 True
         (setManualInput FUZZY_IN_ALKALINITY 300 True
           (setManualInput FUZZY_IN_TDS 2500 True (fuzzy_begin typical_fuzzy_config))))"

definition sensor_inputs :: fuzzy_inputs_t where
  "sensor_inputs =
     \<lparr>in_conductivity = 2500, in_alkalinity = 0, in_sulfite = 0, in_ph = 0,
      in_temperature = 50, in_cond_trend = 0, in_alkalinity_valid = False,
      in_sulfite_valid = False, in_ph_valid = False\<rparr>"

definition no_manual_inputs :: FuzzyController where
  "no_manual_inputs = fuzzy_begin typical_fuzzy_config"

text \<open>The output variable shared by the four outputs, a consequent set sampled at the 101
  points of the defuzzification grid, and the effect of one rule on one output's
  aggregate.\<close>

definition output_var :: linguistic_var_t where
  "output_var = \<lparr>min_value = 0, max_value = 100, num_sets = 5, sets = output_sets\<rparr>"

definition sample :: "linguistic_var_t \<Rightarrow> nat \<Rightarrow> real list" where
  "sample out_var term =
     map (\<lambda>x. evaluateMF (sets out_var ! term) (crisp out_var x) (min_value out_var) (max_value out_var))
       [0..<FUZZY_RESOLUTION]"

definition rule_step :: "FuzzyController \<Rightarrow> real list list \<Rightarrow> nat \<Rightarrow> fuzzy_rule_t \<Rightarrow> real list \<Rightarrow> real list" where
  "rule_step fc mem k ru agg =
     (if enabled ru \<and> \<not> firing_strength fc mem ru < 0.001 \<and> consequent ru ! k \<noteq> DONT_CARE
         \<and> consequent ru ! k < num_sets (f_outputs fc ! k)
      then clip_into (f_outputs fc ! k) (consequent ru ! k) (firing_strength fc mem ru) agg
      else agg)"

section \<open>Lemmas about single-precision rounding\<close>

text \<open>Powers of two, the binade search and the exponent.\<close>

lemma pow2_powr: "pow2 k = 2 powr (real_of_int k)"
proof (cases "0 \<le> k")
  case True
  have "2 powr real (nat k) = (2::real) ^ nat k" by (rule powr_realpow) simp
  moreover have "real (nat k) = real_of_int k" using True by simp
  ultimately show ?thesis using True by (simp add: pow2_def)
next
  case False
  have "2 powr real (nat (- k)) = (2::real) ^ nat (- k)" by (rule powr_realpow) simp
  moreover have "real (nat (- k)) = - real_of_int k" using False by simp
  ultimately have a: "2 powr (- real_of_int k) = (2::real) ^ nat (- k)" by simp
  have "2 powr real_of_int k = inverse (2 powr (- real_of_int k))" by (simp add: powr_minus)
  then have "2 powr real_of_int k = 1 / (2::real) ^ nat (- k)"
    by (simp only: a inverse_eq_divide)
  then show ?thesis using False by (simp add: pow2_def)
qed

lemma pow2_pos: "0 < pow2 k"
  by (simp add: pow2_powr)

lemma pow2_add: "pow2 (a + b) = pow2 a * pow2 b"
  by (simp add: pow2_powr powr_add)

lemma pow2_diff: "pow2 (a - b) = pow2 a / pow2 b"
  by (simp add: pow2_powr powr_diff)

lemma pow2_mono: "a \<le> b \<Longrightarrow> pow2 a \<le> pow2 b"
  by (simp add: pow2_powr)

lemma pow2_nat: "pow2 (int n) = 2 ^ n"
  by (simp add: pow2_def)

lemma pow2_nonneg_int: "0 \<le> k \<Longrightarrow> pow2 k = of_int (2 ^ nat k)"
  by (simp add: pow2_def)

lemma binade_le: "binade n y \<le> n"
  by (induction n) auto

lemma binade_lower: "0 < binade n y \<Longrightarrow> 2 ^ binade n y \<le> y"
  by (induction n) (auto split: if_splits)

lemma binade_upper: "binade n y < n \<Longrightarrow> y < 2 ^ Suc (binade n y)"
proof (induction n)
  case 0 then show ?case by simp
next
  case (Suc n)
  show ?case
  proof (cases "2 ^ Suc n \<le> y")
    case True then show ?thesis using Suc.prems by simp
  next
    case False
    then have b: "binade (Suc n) y = binade n y" by simp
    show ?thesis
    proof (cases "binade n y < n")
      case True then show ?thesis using Suc.IH b by simp
    next
      case False
      then have "binade n y = n" using binade_le[of n y] by simp
      then show ?thesis using \<open>\<not> 2 ^ Suc n \<le> y\<close> b by simp
    qed
  qed
qed

lemma binade_mono: "y1 \<le> y2 \<Longrightarrow> binade n y1 \<le> binade n y2"
proof (induction n)
  case 0 then show ?case by simp
next
  case (Suc n)
  then show ?case using binade_le[of n y1] by (auto simp: le_Suc_eq)
qed

lemma exponent32_range: "- 126 \<le> exponent32 x" "exponent32 x \<le> 127"
  using binade_le[of 253 "\<bar>x\<bar> * 2 ^ 126"] by (simp_all add: exponent32_def)

lemma pow2_binade: "pow2 (int k - 126) * 2 ^ 126 = 2 ^ k"
proof -
  have "pow2 (int k - 126) = pow2 (int k) / pow2 126" by (rule pow2_diff)
  moreover have "pow2 126 = 2 ^ 126" by (simp add: pow2_def)
  ultimately show ?thesis by (simp only: pow2_nat) simp
qed

lemma exponent32_lower:
  assumes "- 126 < exponent32 x" shows "pow2 (exponent32 x) \<le> \<bar>x\<bar>"
proof -
  define k where "k = binade 253 (\<bar>x\<bar> * 2 ^ 126)"
  have e: "exponent32 x = int k - 126" by (simp only: exponent32_def k_def)
  have "0 < k" using assms e by simp
  then have "2 ^ k \<le> \<bar>x\<bar> * 2 ^ 126" unfolding k_def by (rule binade_lower)
  then have "pow2 (int k - 126) * 2 ^ 126 \<le> \<bar>x\<bar> * 2 ^ 126" by (simp only: pow2_binade)
  then have "pow2 (int k - 126) \<le> \<bar>x\<bar>" by (simp only: mult_le_cancel_right) simp
  then show ?thesis by (simp only: e)
qed

lemma exponent32_upper:
  assumes "exponent32 x < 127" shows "\<bar>x\<bar> < pow2 (exponent32 x + 1)"
proof -
  define k where "k = binade 253 (\<bar>x\<bar> * 2 ^ 126)"
  have e: "exponent32 x = int k - 126" by (simp only: exponent32_def k_def)
  have "k < 253" using assms e by simp
  then have "\<bar>x\<bar> * 2 ^ 126 < 2 ^ Suc k" unfolding k_def by (rule binade_upper)
  then have "\<bar>x\<bar> * 2 ^ 126 < pow2 (int (Suc k) - 126) * 2 ^ 126" by (simp only: pow2_binade)
  then have "\<bar>x\<bar> < pow2 (int (Suc k) - 126)" by (simp only: mult_less_cancel_right) simp
  moreover have "int (Suc k) - 126 = exponent32 x + 1" using e by simp
  ultimately show ?thesis by (simp only:)
qed

lemma exponent32_mono: "\<bar>x\<bar> \<le> \<bar>y\<bar> \<Longrightarrow> exponent32 x \<le> exponent32 y"
  unfolding exponent32_def using binade_mono[of "\<bar>x\<bar> * 2 ^ 126" "\<bar>y\<bar> * 2 ^ 126" 253] by simp

lemma exponent32_eqI:
  assumes r: "- 126 \<le> e" "e \<le> 127"
    and lo: "- 126 < e \<Longrightarrow> pow2 e \<le> \<bar>x\<bar>"
    and hi: "e < 127 \<Longrightarrow> \<bar>x\<bar> < pow2 (e + 1)"
  shows "exponent32 x = e"
proof (rule antisym)
  show "exponent32 x \<le> e"
  proof (rule ccontr)
    assume "\<not> exponent32 x \<le> e"
    then have g: "e + 1 \<le> exponent32 x" by simp
    then have "e < 127" "- 126 < exponent32 x" using exponent32_range[of x] r by simp_all
    then have "\<bar>x\<bar> < pow2 (e + 1)" "pow2 (exponent32 x) \<le> \<bar>x\<bar>"
      using hi exponent32_lower by simp_all
    moreover have "pow2 (e + 1) \<le> pow2 (exponent32 x)" using g by (rule pow2_mono)
    ultimately show False by simp
  qed
  show "e \<le> exponent32 x"
  proof (rule ccontr)
    assume "\<not> e \<le> exponent32 x"
    then have g: "exponent32 x + 1 \<le> e" by simp
    then have "exponent32 x < 127" "- 126 < e" using exponent32_range[of x] r by simp_all
    then have "\<bar>x\<bar> < pow2 (exponent32 x + 1)" "pow2 e \<le> \<bar>x\<bar>"
      using lo exponent32_upper by simp_all
    moreover have "pow2 (exponent32 x + 1) \<le> pow2 e" using g by (rule pow2_mono)
    ultimately show False by simp
  qed
qed


text \<open>Rounding to the nearest integer, and \<open>fl32\<close>: it keeps the sign, is monotone,
  leaves a value with a significand of 24 bits as it is, and moves a value by at most
  half a unit in the last place.\<close>

lemma pow2_less_iff: "pow2 a < pow2 b \<longleftrightarrow> a < b"
  by (simp add: pow2_powr)

lemma pow2_le_iff: "pow2 a \<le> pow2 b \<longleftrightarrow> a \<le> b"
  by (simp add: pow2_powr)

lemma round_even_bounds: "\<lfloor>x\<rfloor> \<le> round_even x" "round_even x \<le> \<lfloor>x\<rfloor> + 1"
  by (simp_all add: round_even_def Let_def)

lemma round_even_error: "\<bar>real_of_int (round_even x) - x\<bar> \<le> 1 / 2"
proof -
  have "real_of_int \<lfloor>x\<rfloor> \<le> x" "x < real_of_int \<lfloor>x\<rfloor> + 1" by linarith+
  then show ?thesis by (auto simp: round_even_def Let_def abs_le_iff)
qed

lemma round_even_of_int: "round_even (of_int n) = n"
  by (simp add: round_even_def)

lemma round_even_mono:
  assumes "x \<le> y" shows "round_even x \<le> round_even y"
proof (cases "\<lfloor>x\<rfloor> = \<lfloor>y\<rfloor>")
  case True
  then show ?thesis using assms by (auto simp: round_even_def Let_def)
next
  case False
  then have "\<lfloor>x\<rfloor> + 1 \<le> \<lfloor>y\<rfloor>" using floor_mono[OF assms] by simp
  then show ?thesis using round_even_bounds(2)[of x] round_even_bounds(1)[of y] by simp
qed

lemma fl32_zero: "fl32 0 = 0"
  by (simp add: fl32_def round_even_def)

lemma fl32_nonpos:
  assumes "x \<le> 0" shows "fl32 x \<le> 0"
proof -
  have "x / pow2 (exponent32 x - 23) \<le> 0"
    using assms pow2_pos[of "exponent32 x - 23"] by (simp add: divide_nonpos_pos)
  then have "round_even (x / pow2 (exponent32 x - 23)) \<le> round_even 0" by (rule round_even_mono)
  then have "round_even (x / pow2 (exponent32 x - 23)) \<le> 0" by (simp add: round_even_def)
  then have "real_of_int (round_even (x / pow2 (exponent32 x - 23))) \<le> 0" by simp
  then show ?thesis
    unfolding fl32_def using pow2_pos[of "exponent32 x - 23"] by (simp add: mult_le_0_iff)
qed

lemma fl32_nonneg:
  assumes "0 \<le> x" shows "0 \<le> fl32 x"
proof -
  have "0 \<le> x / pow2 (exponent32 x - 23)"
    using assms pow2_pos[of "exponent32 x - 23"] by simp
  then have "round_even 0 \<le> round_even (x / pow2 (exponent32 x - 23))" by (rule round_even_mono)
  then have "0 \<le> round_even (x / pow2 (exponent32 x - 23))" by (simp add: round_even_def)
  then have "0 \<le> real_of_int (round_even (x / pow2 (exponent32 x - 23)))" by simp
  then show ?thesis
    unfolding fl32_def using pow2_pos[of "exponent32 x - 23"] by simp
qed

lemma pow2_23: "pow2 23 = real_of_int 8388608"
  by (simp add: pow2_def)

lemma pow2_24: "pow2 24 = real_of_int 16777216"
  by (simp add: pow2_def)

lemma fl32_ge_binade:
  assumes "- 126 < exponent32 x" "0 \<le> x" shows "pow2 (exponent32 x) \<le> fl32 x"
proof -
  define q where "q = pow2 (exponent32 x - 23)"
  have q: "0 < q" by (simp add: q_def pow2_pos)
  have e: "pow2 (exponent32 x) = pow2 23 * q"
    unfolding q_def by (simp add: pow2_add[symmetric])
  have "pow2 (exponent32 x) \<le> x" using exponent32_lower[OF assms(1)] assms(2) by simp
  then have "pow2 23 \<le> x / q" using q by (simp add: e pos_le_divide_eq)
  then have "round_even (pow2 23) \<le> round_even (x / q)" by (rule round_even_mono)
  then have "8388608 \<le> round_even (x / q)" by (simp only: pow2_23 round_even_of_int)
  then have "real_of_int 8388608 \<le> real_of_int (round_even (x / q))" by (simp only: of_int_le_iff)
  then have "pow2 23 * q \<le> real_of_int (round_even (x / q)) * q"
    using q by (simp only: pow2_23 mult_le_cancel_right) simp
  then show ?thesis by (simp only: e fl32_def q_def)
qed

lemma fl32_le_next:
  assumes "exponent32 x < 127" "0 \<le> x" shows "fl32 x \<le> pow2 (exponent32 x + 1)"
proof -
  define q where "q = pow2 (exponent32 x - 23)"
  have q: "0 < q" by (simp add: q_def pow2_pos)
  have "exponent32 x + 1 = 24 + (exponent32 x - 23)" by simp
  then have e: "pow2 (exponent32 x + 1) = pow2 24 * q"
    by (simp only: pow2_add q_def)
  have "x \<le> pow2 (exponent32 x + 1)" using exponent32_upper[OF assms(1)] assms(2) by simp
  then have "x / q \<le> pow2 24" using q by (simp add: e pos_divide_le_eq)
  then have "round_even (x / q) \<le> round_even (pow2 24)" by (rule round_even_mono)
  then have "round_even (x / q) \<le> 16777216" by (simp only: pow2_24 round_even_of_int)
  then have "real_of_int (round_even (x / q)) \<le> real_of_int 16777216" by (simp only: of_int_le_iff)
  then have "real_of_int (round_even (x / q)) * q \<le> pow2 24 * q"
    using q by (simp only: pow2_24 mult_le_cancel_right) simp
  then show ?thesis by (simp only: e fl32_def q_def)
qed

lemma fl32_mono:
  assumes "0 \<le> x" "x \<le> y" shows "fl32 x \<le> fl32 y"
proof -
  have y: "0 \<le> y" using assms by simp
  have "\<bar>x\<bar> \<le> \<bar>y\<bar>" using assms by simp
  then have le: "exponent32 x \<le> exponent32 y" by (rule exponent32_mono)
  show ?thesis
  proof (cases "exponent32 x = exponent32 y")
    case True
    have "x / pow2 (exponent32 y - 23) \<le> y / pow2 (exponent32 y - 23)"
      using assms(2) pow2_pos[of "exponent32 y - 23"] by (simp add: divide_right_mono)
    then have "round_even (x / pow2 (exponent32 y - 23)) \<le> round_even (y / pow2 (exponent32 y - 23))"
      by (rule round_even_mono)
    then show ?thesis
      unfolding fl32_def True using pow2_pos[of "exponent32 y - 23"] by simp
  next
    case False
    then have lt: "exponent32 x + 1 \<le> exponent32 y" using le by simp
    then have "exponent32 x < 127" "- 126 < exponent32 y"
      using exponent32_range[of x] exponent32_range[of y] by simp_all
    then have "fl32 x \<le> pow2 (exponent32 x + 1)" "pow2 (exponent32 y) \<le> fl32 y"
      using fl32_le_next[of x] fl32_ge_binade[of y] assms(1) y by simp_all
    moreover have "pow2 (exponent32 x + 1) \<le> pow2 (exponent32 y)" using lt by (rule pow2_mono)
    ultimately show ?thesis by simp
  qed
qed

lemma fl32_exact:
  assumes n: "n < 16777216" and k: "- 149 \<le> k"
  shows "fl32 (real n * pow2 k) = real n * pow2 k"
proof -
  define x where "x = real n * pow2 k"
  define e where "e = exponent32 x"
  have x0: "0 \<le> x" using pow2_pos[of k] by (simp add: x_def)
  have ek: "e - 23 \<le> k"
  proof (cases "e = - 126")
    case True then show ?thesis using k by simp
  next
    case False
    then have "- 126 < e" using exponent32_range(1)[of x] by (simp add: e_def)
    then have "pow2 e \<le> x" using exponent32_lower[of x] x0 by (simp add: e_def)
    moreover have "x < pow2 24 * pow2 k"
      unfolding x_def using n pow2_pos[of k] by (simp add: pow2_24)
    ultimately have "pow2 e < pow2 (24 + k)" by (simp add: pow2_add)
    then show ?thesis by (simp add: pow2_less_iff)
  qed
  then have "pow2 k = pow2 (k - (e - 23)) * pow2 (e - 23)" by (simp add: pow2_add[symmetric])
  also have "pow2 (k - (e - 23)) = real_of_int (2 ^ nat (k - (e - 23)))"
    using ek by (intro pow2_nonneg_int) simp
  finally have pk: "pow2 k = real_of_int (2 ^ nat (k - (e - 23))) * pow2 (e - 23)" .
  have "x / pow2 (e - 23) = real_of_int (int n * 2 ^ nat (k - (e - 23)))"
    unfolding x_def using pow2_pos[of "e - 23"] by (subst pk) simp
  then have "round_even (x / pow2 (e - 23)) = int n * 2 ^ nat (k - (e - 23))"
    by (simp only: round_even_of_int)
  then have "fl32 x = real_of_int (int n * 2 ^ nat (k - (e - 23))) * pow2 (e - 23)"
    by (simp only: fl32_def e_def)
  also have "\<dots> = x" unfolding x_def by (subst pk) simp
  finally show ?thesis by (simp only: x_def)
qed

lemma fl32_nat: "n < 16777216 \<Longrightarrow> fl32 (real n) = real n"
  using fl32_exact[of n 0] by (simp add: pow2_def)

lemma fl32_one: "fl32 1 = 1"
  using fl32_nat[of 1] by simp

lemma fl32_error: "\<bar>fl32 x - x\<bar> \<le> \<bar>x\<bar> / 16777216 + pow2 (- 150)"
proof -
  define e where "e = exponent32 x"
  define q where "q = pow2 (e - 23)"
  have q: "0 < q" by (simp add: q_def pow2_pos)
  have "fl32 x - x = (real_of_int (round_even (x / q)) - x / q) * q"
    using q by (simp add: fl32_def e_def q_def algebra_simps)
  then have "\<bar>fl32 x - x\<bar> = \<bar>real_of_int (round_even (x / q)) - x / q\<bar> * q"
    using q by (simp add: abs_mult)
  also have "\<dots> \<le> 1 / 2 * q"
    using round_even_error[of "x / q"] q by (intro mult_right_mono) simp_all
  also have "1 / 2 * q = pow2 (e - 24)"
  proof -
    have "pow2 (e - 23) = pow2 (e - 24) * pow2 1" by (simp add: pow2_add[symmetric])
    then show ?thesis by (simp add: q_def pow2_def)
  qed
  finally have b: "\<bar>fl32 x - x\<bar> \<le> pow2 (e - 24)" .
  show ?thesis
  proof (cases "e = - 126")
    case True
    then have "pow2 (e - 24) = pow2 (- 150)" by simp
    then show ?thesis using b by simp
  next
    case False
    then have "- 126 < e" using exponent32_range(1)[of x] by (simp add: e_def)
    then have "pow2 e \<le> \<bar>x\<bar>" using exponent32_lower[of x] by (simp add: e_def)
    moreover have "pow2 e = pow2 (e - 24) * pow2 24" by (simp add: pow2_add[symmetric])
    ultimately have "pow2 (e - 24) \<le> \<bar>x\<bar> / 16777216" by (simp add: pow2_24)
    then show ?thesis using b pow2_pos[of "- 150"] by simp
  qed
qed

lemma fl32_eval:
  assumes "pow2 e \<le> \<bar>x\<bar>" "\<bar>x\<bar> < pow2 (e + 1)" "- 126 \<le> e" "e \<le> 127"
  shows "fl32 x = real_of_int (round_even (x / pow2 (e - 23))) * pow2 (e - 23)"
proof -
  have "exponent32 x = e" using assms by (intro exponent32_eqI) simp_all
  then show ?thesis by (simp add: fl32_def)
qed


text \<open>The proportional discharge time as a function of the conductivity: at most the cap,
  zero up to the setpoint, monotone, the cap from the proportional band on, and within
  the rounding of three operations and one truncation of the exact value.\<close>

lemma pow2_150: "pow2 (- 150) \<le> 1 / 50331648" "0 < pow2 (- 150)"
  by (simp_all add: pow2_def)

lemma percentage_bounds:
  assumes "0 \<le> d" "0 < pb"
  shows "0 \<le> (if 1 < fl32 (d / pb) then 1 else fl32 (d / pb))"
    "(if 1 < fl32 (d / pb) then 1 else fl32 (d / pb)) \<le> 1"
  using fl32_nonneg[of "d / pb"] assms by simp_all

lemma prop_time_ms_le:
  assumes pb: "0 < pb" and fm: "fl32 (real m) = real m"
  shows "prop_time_ms sp pb m v \<le> m"
proof (cases "fl32 (v - sp) \<le> 0")
  case True then show ?thesis by (simp add: prop_time_ms_def)
next
  case False
  define p where "p = (if 1 < fl32 (fl32 (v - sp) / pb) then 1 else fl32 (fl32 (v - sp) / pb))"
  have p: "0 \<le> p" "p \<le> 1"
    unfolding p_def using percentage_bounds[of "fl32 (v - sp)" pb] False pb by simp_all
  have "p * real m \<le> real m" using p by (simp add: mult_left_le_one_le)
  moreover have "0 \<le> p * real m" using p by simp
  ultimately have "fl32 (p * real m) \<le> fl32 (real m)" by (intro fl32_mono)
  then have "\<lfloor>fl32 (p * real m)\<rfloor> \<le> int m" by (simp add: fm floor_le_iff)
  then show ?thesis using False by (simp add: prop_time_ms_def p_def[symmetric])
qed

lemma prop_time_ms_nonpos: "v \<le> sp \<Longrightarrow> prop_time_ms sp pb m v = 0"
  using fl32_nonpos[of "v - sp"] by (simp add: prop_time_ms_def)

lemma prop_time_ms_top:
  assumes pb: "0 < pb" and fpb: "fl32 pb = pb" and fm: "fl32 (real m) = real m"
    and top: "pb \<le> v - sp"
  shows "prop_time_ms sp pb m v = m"
proof -
  have "fl32 pb \<le> fl32 (v - sp)" using pb top by (intro fl32_mono) simp_all
  then have d: "pb \<le> fl32 (v - sp)" by (simp only: fpb)
  then have "1 \<le> fl32 (v - sp) / pb" using pb by simp
  then have "fl32 1 \<le> fl32 (fl32 (v - sp) / pb)" by (intro fl32_mono) simp_all
  then have q: "1 \<le> fl32 (fl32 (v - sp) / pb)" by (simp only: fl32_one)
  then have "(if 1 < fl32 (fl32 (v - sp) / pb) then 1 else fl32 (fl32 (v - sp) / pb)) = 1"
    by simp
  moreover have "\<not> fl32 (v - sp) \<le> 0" using d pb by simp
  ultimately show ?thesis by (simp add: prop_time_ms_def fm)
qed

lemma prop_time_ms_mono:
  assumes pb: "0 < pb" and le: "v1 \<le> v2"
  shows "prop_time_ms sp pb m v1 \<le> prop_time_ms sp pb m v2"
proof (cases "fl32 (v1 - sp) \<le> 0")
  case True then show ?thesis by (simp add: prop_time_ms_def)
next
  case False
  then have v1: "0 \<le> v1 - sp" using fl32_nonpos[of "v1 - sp"] by (cases "v1 - sp \<le> 0") simp_all
  have d: "fl32 (v1 - sp) \<le> fl32 (v2 - sp)" using v1 le by (intro fl32_mono) simp_all
  then have nz: "\<not> fl32 (v2 - sp) \<le> 0" using False by simp
  define q1 where "q1 = fl32 (fl32 (v1 - sp) / pb)"
  define q2 where "q2 = fl32 (fl32 (v2 - sp) / pb)"
  have "fl32 (v1 - sp) / pb \<le> fl32 (v2 - sp) / pb" using d pb by (simp add: divide_right_mono)
  moreover have "0 \<le> fl32 (v1 - sp) / pb" using False pb by simp
  ultimately have q: "q1 \<le> q2" unfolding q1_def q2_def by (intro fl32_mono)
  have q1: "0 \<le> q1" unfolding q1_def using False pb by (intro fl32_nonneg) simp
  have "(if 1 < q1 then 1 else q1) * real m \<le> (if 1 < q2 then 1 else q2) * real m"
    using q by (intro mult_right_mono) auto
  moreover have "0 \<le> (if 1 < q1 then 1 else q1) * real m" using q1 by simp
  ultimately have "fl32 ((if 1 < q1 then 1 else q1) * real m)
      \<le> fl32 ((if 1 < q2 then 1 else q2) * real m)" by (intro fl32_mono)
  then have "nat \<lfloor>fl32 ((if 1 < q1 then 1 else q1) * real m)\<rfloor>
      \<le> nat \<lfloor>fl32 ((if 1 < q2 then 1 else q2) * real m)\<rfloor>"
    by (intro nat_mono floor_mono)
  moreover have "prop_time_ms sp pb m v1 = nat \<lfloor>fl32 ((if 1 < q1 then 1 else q1) * real m)\<rfloor>"
    "prop_time_ms sp pb m v2 = nat \<lfloor>fl32 ((if 1 < q2 then 1 else q2) * real m)\<rfloor>"
    using False nz by (simp_all only: prop_time_ms_def q1_def q2_def if_False)
  ultimately show ?thesis by (simp only:)
qed

lemma prop_time_ms_error:
  assumes pb: "1 \<le> pb" and fpb: "fl32 pb = pb" and fm: "fl32 (real m) = real m"
    and pos: "sp < v"
  shows "\<bar>real (prop_time_ms sp pb m v) - min 1 ((v - sp) / pb) * real m\<bar>
           \<le> 1 + real m / 4194304"
proof -
  define D where "D = v - sp"
  define d where "d = fl32 D"
  define u :: real where "u = 1 / 16777216"
  define h where "h = pow2 (- 150)"
  have D: "0 < D" using pos by (simp add: D_def)
  have h: "0 < h" "3 * h \<le> u" using pow2_150 by (simp_all add: h_def u_def)
  have u: "0 < u" "u \<le> 1 / 2" by (simp_all add: u_def)
  have pb0: "0 < pb" using pb by simp
  have dD: "\<bar>d - D\<bar> \<le> u * D + h"
    using fl32_error[of D] D by (simp add: d_def u_def h_def)
  have d0: "0 \<le> d" unfolding d_def using D by (intro fl32_nonneg) simp
  have P0: "0 \<le> min 1 (D / pb)" using D pb0 by simp
  show ?thesis
  proof (cases "d \<le> 0")
    case True
    then have "d = 0" using d0 by simp
    then have "D \<le> u * D + h" using dD D by simp
    then have "(1 - u) * D \<le> h" by (simp add: algebra_simps)
    moreover have "1 / 2 * D \<le> (1 - u) * D" using u D by (intro mult_right_mono) simp_all
    ultimately have D2: "D \<le> 2 * h" by simp
    have "D / pb \<le> D" using pb D by (simp add: divide_le_eq mult_le_cancel_left1)
    then have "min 1 (D / pb) \<le> 2 * h" using D2 by simp
    then have "min 1 (D / pb) * real m \<le> 2 * h * real m" by (intro mult_right_mono) simp_all
    also have "\<dots> \<le> u * real m" using h by (intro mult_right_mono) simp_all
    also have "\<dots> \<le> 1 + real m / 4194304" by (simp add: u_def)
    finally have "min 1 (D / pb) * real m \<le> 1 + real m / 4194304" .
    moreover have "0 \<le> min 1 (D / pb) * real m" using P0 by simp
    moreover have "prop_time_ms sp pb m v = 0" using True by (simp add: prop_time_ms_def d_def D_def)
    ultimately show ?thesis by (simp add: D_def)
  next
    case dpos: False
    show ?thesis
    proof (cases "pb \<le> D")
      case True
      then have "prop_time_ms sp pb m v = m"
        using prop_time_ms_top[OF pb0 fpb fm, of v sp] by (simp add: D_def)
      moreover have "min 1 (D / pb) = 1" using True pb0 by simp
      ultimately show ?thesis by (simp add: D_def)
    next
      case False
      then have Dpb: "D / pb < 1" using pb0 by simp
      have "d \<le> fl32 pb" unfolding d_def using D False by (intro fl32_mono) simp_all
      then have dpb: "d / pb \<le> 1" using pb0 by (simp add: fpb)
      define q where "q = fl32 (d / pb)"
      have q0: "0 \<le> q" unfolding q_def using d0 pb0 by (intro fl32_nonneg) simp
      have "q \<le> fl32 1" unfolding q_def using dpb d0 pb0 by (intro fl32_mono) simp_all
      then have q1: "q \<le> 1" by (simp only: fl32_one)
      have "\<bar>q - d / pb\<bar> \<le> \<bar>d / pb\<bar> / 16777216 + h"
        unfolding q_def h_def by (rule fl32_error)
      also have "\<bar>d / pb\<bar> / 16777216 \<le> u" using dpb d0 pb0 by (simp add: u_def)
      finally have e1: "\<bar>q - d / pb\<bar> \<le> u + h" by simp
      have "\<bar>d / pb - D / pb\<bar> = \<bar>d - D\<bar> / pb" using pb0 by (simp add: diff_divide_distrib[symmetric])
      also have "\<dots> \<le> (u * D + h) / pb" using dD pb0 by (simp add: divide_right_mono)
      also have "\<dots> = u * (D / pb) + h / pb" by (simp add: add_divide_distrib)
      also have "\<dots> \<le> u * 1 + h"
      proof (intro add_mono mult_left_mono)
        show "D / pb \<le> 1" using Dpb by simp
        show "0 \<le> u" using u by simp
        show "h / pb \<le> h" using pb h by (simp add: divide_le_eq mult_le_cancel_left1)
      qed
      finally have e2: "\<bar>d / pb - D / pb\<bar> \<le> u + h" by simp
      have e3: "\<bar>q - D / pb\<bar> \<le> 2 * u + 2 * h" using e1 e2 by simp
      define r where "r = fl32 (q * real m)"
      have r0: "0 \<le> r" unfolding r_def using q0 by (intro fl32_nonneg) simp
      have "\<bar>r - q * real m\<bar> \<le> \<bar>q * real m\<bar> / 16777216 + h"
        unfolding r_def h_def by (rule fl32_error)
      also have "\<bar>q * real m\<bar> / 16777216 \<le> u * real m"
      proof -
        have "q * real m \<le> 1 * real m" using q1 by (intro mult_right_mono) simp_all
        then show ?thesis using q0 by (simp add: u_def abs_mult)
      qed
      finally have e4: "\<bar>r - q * real m\<bar> \<le> u * real m + h" by simp
      have "q * real m - D / pb * real m = (q - D / pb) * real m" by (simp add: algebra_simps)
      then have "\<bar>q * real m - D / pb * real m\<bar> = \<bar>q - D / pb\<bar> * real m"
        by (simp only: abs_mult abs_of_nat)
      also have "\<dots> \<le> (2 * u + 2 * h) * real m" using e3 by (intro mult_right_mono) simp_all
      finally have e5: "\<bar>q * real m - D / pb * real m\<bar> \<le> (2 * u + 2 * h) * real m" .
      have e6: "\<bar>r - D / pb * real m\<bar> \<le> 3 * u * real m + h * (1 + 2 * real m)"
        using e4 e5 by (simp add: algebra_simps)
      have res: "prop_time_ms sp pb m v = nat \<lfloor>r\<rfloor>"
        using dpos q1 by (simp add: prop_time_ms_def d_def D_def q_def r_def)
      have fl: "\<bar>real (nat \<lfloor>r\<rfloor>) - r\<bar> \<le> 1"
      proof -
        have "0 \<le> \<lfloor>r\<rfloor>" using r0 by simp
        then have "real (nat \<lfloor>r\<rfloor>) = real_of_int \<lfloor>r\<rfloor>" by simp
        then show ?thesis by linarith
      qed
      have P: "min 1 (D / pb) = D / pb" using Dpb by simp
      show ?thesis
      proof (cases "m = 0")
        case True
        then have "r = 0" by (simp add: r_def fl32_zero)
        then have z: "prop_time_ms sp pb m v = 0" by (simp add: res)
        show ?thesis unfolding z using True by simp
      next
        case mpos: False
        then have m1: "1 \<le> real m" by simp
        have "h * (1 + 2 * real m) \<le> h * (3 * real m)"
          using h m1 by (intro mult_left_mono) simp_all
        also have "\<dots> = 3 * h * real m" by simp
        also have "\<dots> \<le> u * real m" using h by (intro mult_right_mono) simp_all
        finally have "\<bar>r - D / pb * real m\<bar> \<le> 4 * u * real m" using e6 by simp
        then have "\<bar>r - D / pb * real m\<bar> \<le> real m / 4194304" by (simp add: u_def)
        then have "\<bar>real (nat \<lfloor>r\<rfloor>) - D / pb * real m\<bar> \<le> 1 + real m / 4194304"
          using fl by linarith
        then show ?thesis unfolding D_def[symmetric] res P .
      qed
    qed
  qed
qed
section \<open>Lemmas about the blowdown controller\<close>

lemmas valve_defs = openValve_def closeValve_def has_ball_valve_def startBallValve_def
  transitionState_def setRelayState_def

lemma set_last_sel:
  "config (set_last x c) = config c"
  "cond_config (set_last x c) = cond_config c"
  "interval_timer (set_last x c) = interval_timer c"
  "duration_timer (set_last x c) = duration_timer c"
  "hold_timer (set_last x c) = hold_timer c"
  "prop_blowdown_time (set_last x c) = prop_blowdown_time c"
  "state (status (set_last x c)) = state (status c)"
  "valve_open (status (set_last x c)) = valve_open (status c)"
  "waiting_for_reset (status (set_last x c)) = waiting_for_reset (status c)"
  "blowdown_start_time (status (set_last x c)) = blowdown_start_time (status c)"
  "current_blowdown_time (status (set_last x c)) = current_blowdown_time (status c)"
  by (simp_all add: set_last_def)

lemma set_last_upd:
  "(set_last x c)\<lparr>interval_timer := t, duration_timer := t'\<rparr> = set_last x (c\<lparr>interval_timer := t, duration_timer := t'\<rparr>)"
  "(set_last x c)\<lparr>duration_timer := t\<rparr> = set_last x (c\<lparr>duration_timer := t\<rparr>)"
  "(set_last x c)\<lparr>prop_blowdown_time := p\<rparr> = set_last x (c\<lparr>prop_blowdown_time := p\<rparr>)"
  by (simp_all add: set_last_def)

lemma calc_set_last: "calculateProportionalTime v (set_last x c) = calculateProportionalTime v c"
  by (simp add: calculateProportionalTime_def set_last_def)

lemma transitionState_set_last: "transitionState now s (set_last x c) = set_last x (transitionState now s c)"
  by (simp add: transitionState_def set_last_def)

lemma openValve_set_last: "openValve now (set_last x c) = set_last x (openValve now c)"
  by (simp add: valve_defs set_last_def)

lemma closeValve_set_last: "closeValve now (set_last x c) = set_last x (closeValve now c)"
  by (simp add: valve_defs set_last_def Let_def)

lemma trap_sample_set_last: "trap_sample now v (set_last x c) = set_last x (trap_sample now v c)"
  by (simp add: trap_sample_def closeValve_set_last Let_def) (simp add: set_last_def transitionState_def)

lemma hold_after_blow_set_last: "hold_after_blow now (set_last x c) = set_last x (hold_after_blow now c)"
  by (simp add: hold_after_blow_def closeValve_set_last) (simp add: set_last_def transitionState_def)

lemma begin_sample_set_last: "begin_sample now (set_last x c) = set_last x (begin_sample now c)"
  by (simp add: begin_sample_def set_last_upd transitionState_set_last openValve_set_last)

lemmas set_last_comm = set_last_sel set_last_upd calc_set_last transitionState_set_last
  openValve_set_last closeValve_set_last trap_sample_set_last hold_after_blow_set_last
  begin_sample_set_last

lemma processContinuousMode_set_last:
  "processContinuousMode now v (set_last x c) = set_last x (processContinuousMode now v c)"
  by (simp add: processContinuousMode_def set_last_comm split: option.splits)

lemma processIntermittentMode_set_last:
  "processIntermittentMode now v (set_last x c) = set_last x (processIntermittentMode now v c)"
  by (simp add: processIntermittentMode_def set_last_comm split: option.splits)

lemma processTimedBlowdown_set_last:
  "processTimedBlowdown now v (set_last x c) = set_last x (processTimedBlowdown now v c)"
  by (simp add: processTimedBlowdown_def set_last_comm split: option.splits)

lemma processTimeProportional_set_last:
  "processTimeProportional now v (set_last x c) = set_last x (processTimeProportional now v c)"
  by (simp add: processTimeProportional_def set_last_comm split: option.splits)

lemma sample_step_set_last:
  "sample_step now v (set_last x c) = set_last x (sample_step now v c)"
  by (simp add: sample_step_def set_last_sel processContinuousMode_set_last
      processIntermittentMode_set_last processTimedBlowdown_set_last
      processTimeProportional_set_last split: option.splits sample_mode_t.splits)



lemma keeps_trans: "keeps a b \<Longrightarrow> keeps b c \<Longrightarrow> keeps a c"
  by (simp add: keeps_def)











lemma update_unfold:
  "update now v flow_ok c =
     (if \<not> flow_ok then (if valve_open (status c) then closeValve now (set_last v c) else set_last v c)
      else
        let c1 = processHOA now (set_last v c) in
        if hoa_mode (status c1) \<noteq> HOA_AUTO then c1
        else if state (status c1) = BD_STATE_VALVE_OPENING
                \<or> state (status c1) = BD_STATE_VALVE_CLOSING
        then checkBallValveComplete now c1
        else
          let c2 = checkTimeout now (sample_step now v c1) in
          if state (status c2) = BD_STATE_BLOWING_DOWN
          then c2\<lparr>status := (status c2)
                 \<lparr>current_blowdown_time := now - blowdown_start_time (status c2)\<rparr>\<rparr>
          else c2)"
  by (simp add: update_def set_last_def Let_def)

lemma processHOA_auto: "hoa_mode (status c) = HOA_AUTO \<Longrightarrow> processHOA now c = c"
  by (simp add: processHOA_def)







lemma unat_ms: "unat (ms x) = unat x * 1000"
proof -
  have "unat x < 2 ^ 16" using unsigned_less[of x] by simp
  then have a: "unat x < 65536" by simp
  have "unat (ucast x :: u32) = unat x"
    using a by (simp add: unsigned_ucast_eq take_bit_nat_eq_self)
  then show ?thesis
    using a by (simp add: ms_def unat_word_ariths)
qed

lemma real_unat_pos: "w \<noteq> 0 \<Longrightarrow> 0 < real (unat w)"
proof -
  assume "w \<noteq> 0"
  then have "0 < unat w" by (simp add: unat_gt_0)
  then show ?thesis by (simp only: of_nat_0_less_iff)
qed

lemma unat_ms_bound: "unat (ms x) < 4294967296"
  using unsigned_less[of "ms x"] by simp

lemma float_of_u16_exact: "float_of_u16 w = real (unat w)"
proof -
  have "unat w < 2 ^ 16" using unsigned_less[of w] by simp
  then have "unat w < 16777216" by simp
  then show ?thesis unfolding float_of_u16_def by (rule fl32_nat)
qed

lemma fl32_ms: "fl32 (real (unat (x :: u16) * 1000)) = real (unat x * 1000)"
proof -
  have "unat x < 2 ^ 16" using unsigned_less[of x] by simp
  then have "125 * unat x < 16777216" by simp
  then have "fl32 (real (125 * unat x) * pow2 3) = real (125 * unat x) * pow2 3"
    by (intro fl32_exact) simp_all
  moreover have "real (125 * unat x) * pow2 3 = real (unat x * 1000)" by (simp add: pow2_def)
  ultimately show ?thesis by (simp only:)
qed

lemma float_of_u32_ms: "float_of_u32 (ms x) = real (unat x * 1000)"
  unfolding float_of_u32_def unat_ms by (rule fl32_ms)

lemma calculateProportionalTime_closed_form:
  assumes cfg: "config c = Some cfg" and cc: "cond_config c = Some cc"
    and pb: "prop_band cc \<noteq> 0"
  shows "unat (calculateProportionalTime v c)
     = prop_time_ms (real (unat (setpoint cfg))) (real (unat (prop_band cc)))
          (unat (max_prop_time_seconds cc) * 1000) v"
proof -
  define sp where "sp = real (unat (setpoint cfg))"
  define b where "b = real (unat (prop_band cc))"
  define M where "M = unat (max_prop_time_seconds cc) * 1000"
  have b: "0 < b" using real_unat_pos[OF pb] by (simp only: b_def)
  have M: "M < 4294967296" using unat_ms_bound[of "max_prop_time_seconds cc"] by (simp add: M_def unat_ms)
  have fM: "fl32 (real M) = real M" unfolding M_def by (rule fl32_ms)
  have z: "(prop_band cc = 0) = False" using pb by simp
  have unf: "calculateProportionalTime v c =
      (if fl32 (v - sp) \<le> 0 then 0
       else of_nat (nat \<lfloor>fl32 ((if 1 < fl32 (fl32 (v - sp) / b) then 1
                                    else fl32 (fl32 (v - sp) / b)) * real M)\<rfloor>))"
    unfolding sp_def b_def M_def
    by (simp only: calculateProportionalTime_def cfg cc prod.case option.case Let_def
        float_of_u16_exact float_of_u32_ms u32_of_float_def z if_False)
  have "unat (calculateProportionalTime v c) = prop_time_ms sp b M v"
  proof (cases "fl32 (v - sp) \<le> 0")
    case True
    then have "calculateProportionalTime v c = 0" by (simp only: unf if_True)
    then show ?thesis using True by (simp add: prop_time_ms_def)
  next
    case False
    have "calculateProportionalTime v c = of_nat (prop_time_ms sp b M v)"
      unfolding prop_time_ms_def by (simp only: unf False if_False)
    then show ?thesis
      using prop_time_ms_le[OF b fM, of sp v] M by (simp add: unat_of_nat)
  qed
  then show ?thesis by (simp only: sp_def b_def M_def)
qed


lemmas scenario_defs = solenoid_config_def ball_valve_config_def intermittent_config_def
  proportional_config_def solenoid_controller_def ball_valve_controller_def
  intermittent_controller_def proportional_controller_def configure_def
  setConductivityConfig_def BlowdownController_init_def

lemmas tick_defs = update_def processHOA_def sample_step_def processContinuousMode_def
  processIntermittentMode_def processTimedBlowdown_def processTimeProportional_def
  begin_sample_def trap_sample_def hold_after_blow_def checkTimeout_def
  checkBallValveComplete_def valve_defs ms_def Let_def

lemma relay_ops:
  "relay_energized (status (transitionState now s c)) = relay_energized (status c)"
  "relay_energized (status (openValve now c)) = True"
  "relay_energized (status (closeValve now c)) = False"
  "relay_energized (status (trap_sample now v c)) = False"
  "relay_energized (status (hold_after_blow now c)) = False"
  "relay_energized (status (begin_sample now c)) = True"
  "relay_energized (status (set_last x c)) = relay_energized (status c)"
  by (simp_all add: valve_defs trap_sample_def hold_after_blow_def begin_sample_def set_last_def Let_def)

lemma sample_step_opens:
  assumes cc: "cond_config c = Some cc" and mode: "sample_mode cc \<noteq> SAMPLE_MODE_CONTINUOUS"
    and off: "\<not> relay_energized (status c)"
    and on: "relay_energized (status (sample_step now v c))"
  shows "scheduled_open now v cc c"
proof (cases "sample_mode cc")
  case SAMPLE_MODE_CONTINUOUS
  then show ?thesis using mode by simp
next
  case SAMPLE_MODE_INTERMITTENT
  then show ?thesis using cc off on
    by (auto simp: sample_step_def processIntermittentMode_def relay_ops scheduled_open_def
        split: option.splits if_splits)
next
  case SAMPLE_MODE_TIMED_BLOWDOWN
  then show ?thesis using cc off on
    by (auto simp: sample_step_def processTimedBlowdown_def relay_ops scheduled_open_def
        split: option.splits if_splits)
next
  case SAMPLE_MODE_TIME_PROPORTIONAL
  then show ?thesis using cc off on
    by (auto simp: sample_step_def processTimeProportional_def relay_ops scheduled_open_def
        split: option.splits if_splits)
qed

lemma checkTimeout_relay:
  "relay_energized (status (checkTimeout now c)) \<Longrightarrow> relay_energized (status c)"
  by (auto simp: checkTimeout_def relay_ops transitionState_def Let_def split: option.splits if_splits)

lemma checkBallValveComplete_relay:
  "relay_energized (status (checkBallValveComplete now c)) = relay_energized (status c)"
  by (simp add: checkBallValveComplete_def transitionState_def Let_def split: option.splits)

section \<open>Lemmas about the pumps\<close>

lemmas pump_scenario_defs = mode_b_config_def mode_b_pump_def pump_configure_def ChemicalPump_init_def

lemmas pump_defs = processFeedMode_def processModeB_def start_def stop_def pump_checkTimeout_def
  pump_processHOA_def pump_update_def updateStats_def ms_def Let_def HOA_HAND_TIMEOUT_SEC_def

lemma unat_ucast_u8_u32: "unat (ucast (x :: u8) :: u32) = unat x"
proof -
  have "unat x < 2 ^ 8" using unsigned_less[of x] by simp
  then show ?thesis by (simp add: unsigned_ucast_eq take_bit_nat_eq_self)
qed

lemma mode_b_feed_time:
  assumes "unat a * unat (pct :: u8) < 4294967296"
  shows "unat ((a :: u32) * ucast pct div 100) = unat a * unat pct div 100"
proof -
  have "unat (a * ucast pct) = unat a * unat pct"
    using assms by (simp add: unat_word_ariths unat_ucast_u8_u32)
  then show ?thesis by (simp add: unat_div)
qed

lemma pump_checkTimeout_fires:
  assumes "p_config p = Some cfg" "pc_time_limit_seconds cfg \<noteq> 0" "running (p_status p)"
    "ms (pc_time_limit_seconds cfg) \<le> runtime_ms (p_status p)"
  shows "pump_checkTimeout p =
     (stop p)\<lparr>p_status := (p_status (stop p))\<lparr>p_state := PUMP_STATE_LOCKED_OUT\<rparr>\<rparr>"
  using assms by (simp add: pump_checkTimeout_def word_neq_0_conv)

lemma pump_checkTimeout_locks_out:
  assumes "p_config p = Some cfg" "pc_time_limit_seconds cfg \<noteq> 0" "running (p_status p)"
    "ms (pc_time_limit_seconds cfg) \<le> runtime_ms (p_status p)"
  shows "\<not> running (p_status (pump_checkTimeout p))"
    "p_state (p_status (pump_checkTimeout p)) = PUMP_STATE_LOCKED_OUT"
  by (simp_all add: pump_checkTimeout_fires[OF assms] stop_def)

text \<open>The run of the pump through its time limit, tick by tick.\<close>

lemma started_pump:
  "start 1000 0 0 mode_b_pump =
     mode_b_pump\<lparr>driver_enabled := True,
       p_status := (p_status mode_b_pump)\<lparr>p_state := PUMP_STATE_RUNNING, running := True,
                                            start_time := 1000, runtime_ms := 0\<rparr>,
       steps_limited := False, time_limited := False\<rparr>"
  by (simp add: start_def pump_scenario_defs Let_def)

lemma first_tick:
  "pump_update 121000 (False, 0) (0, start 1000 0 0 mode_b_pump) =
     (0, mode_b_pump\<lparr>driver_enabled := True,
       p_status := (p_status mode_b_pump)\<lparr>p_state := PUMP_STATE_RUNNING, running := True,
                                            start_time := 1000, runtime_ms := 120000,
                                            total_runtime_ms := 120000\<rparr>,
       steps_limited := False, time_limited := False\<rparr>)"
  unfolding started_pump
  by (simp add: pump_update_def pump_processHOA_def pump_checkTimeout_def updateStats_def
      pump_scenario_defs ms_def)

lemma timed_out_pump_eq:
  "timed_out_pump =
     mode_b_pump\<lparr>driver_enabled := False,
       p_status := (p_status mode_b_pump)\<lparr>p_state := PUMP_STATE_LOCKED_OUT, running := False,
                                            start_time := 1000, runtime_ms := 120000,
                                            total_runtime_ms := 120000\<rparr>,
       steps_limited := False, time_limited := False\<rparr>"
  unfolding timed_out_pump_def first_tick
  by (simp add: pump_update_def pump_processHOA_def pump_checkTimeout_def stop_def
      pump_scenario_defs ms_def)

text \<open>No operation of the pump writes \<open>lockout_end_time\<close>: the field is declared
  (``when lockout expires'') and read by \<open>start\<close>, and keeps the value 0 it has after
  construction.\<close>

lemma lockout_end_time_never_written:
  "lockout_end_time (p_status (start t duration_ms volume_ml p)) = lockout_end_time (p_status p)"
  "lockout_end_time (p_status (stop p)) = lockout_end_time (p_status p)"
  "lockout_end_time (p_status (pump_checkTimeout p)) = lockout_end_time (p_status p)"
  "lockout_end_time (p_status (pump_configure k p)) = lockout_end_time (p_status p)"
  "lockout_end_time (p_status (pump_setHOA m p)) = lockout_end_time (p_status p)"
  "lockout_end_time (p_status (snd (pump_processHOA now (h, p)))) = lockout_end_time (p_status p)"
  "lockout_end_time (p_status (updateStats now steps p)) = lockout_end_time (p_status p)"
  by (simp_all add: start_def stop_def pump_checkTimeout_def pump_configure_def pump_setHOA_def
      pump_processHOA_def updateStats_def Let_def
      split: option.splits hoa_mode_t.splits)

lemma pump_update_keeps_lockout_end_time:
  "lockout_end_time (p_status (snd (pump_update now (dist_zero, steps) (h, p))))
     = lockout_end_time (p_status p)"
proof -
  obtain h1 p1 where hp: "pump_processHOA now (h, p) = (h1, p1)" by (cases "pump_processHOA now (h, p)")
  have 1: "lockout_end_time (p_status p1) = lockout_end_time (p_status p)"
    using lockout_end_time_never_written(6)[of now h p] by (simp add: hp)
  show ?thesis
    by (simp add: pump_update_def hp Let_def lockout_end_time_never_written 1)
qed

section \<open>Lemmas about the fuzzy controller\<close>

lemmas fuzzy_scenario_defs = typical_fuzzy_config_def at_setpoints_def sensor_inputs_def
  no_manual_inputs_def
  fuzzy_begin_def setManualInput_def updateMembershipFunctions_def initOutputVariables_def
  output_sets_def loadDefaultRules_def rule_def tri_def trap_def

lemmas fuzzy_consts = FUZZY_MAX_INPUTS_def FUZZY_MAX_OUTPUTS_def FUZZY_MAX_SETS_def
  FUZZY_RESOLUTION_def FUZZY_IN_TDS_def FUZZY_IN_ALKALINITY_def FUZZY_IN_SULFITE_def
  FUZZY_IN_PH_def FUZZY_IN_TEMPERATURE_def FUZZY_IN_TREND_def FUZZY_OUT_BLOWDOWN_def
  FUZZY_OUT_CAUSTIC_def FUZZY_OUT_SULFITE_def FUZZY_OUT_ACID_def
  TERM_VERY_LOW_def TERM_LOW_def TERM_MEDIUM_def TERM_HIGH_def TERM_VERY_HIGH_def
  DONT_CARE_def VL_def LO_def MD_def HI_def VH_def DC_def

lemmas fuzzy_defs = fuzzify_inputs_def fuzzify_manual_def fuzzify_def assume_normal_def
  evaluateMF_def Let_def

lemma upt_numerals:
  "[0..<7::nat] = [0, 1, 2, 3, 4, 5, 6]"
  "[0..<6::nat] = [0, 1, 2, 3, 4, 5]"
  "[0..<4::nat] = [0, 1, 2, 3]"
  by (simp_all add: upt_rec)

lemma map_upt_resolution:
  "map f [0..<101] =
     [f 0, f 1, f 2, f 3, f 4, f 5, f 6, f 7, f 8, f 9, f 10, f 11, f 12, f 13, f 14, f
       15, f 16, f 17, f 18, f 19, f 20, f 21, f 22, f 23, f 24, f 25, f 26, f 27, f 28, f
       29, f 30, f 31, f 32, f 33, f 34, f 35, f 36, f 37, f 38, f 39, f 40, f 41, f 42, f
       43, f 44, f 45, f 46, f 47, f 48, f 49, f 50, f 51, f 52, f 53, f 54, f 55, f 56, f
       57, f 58, f 59, f 60, f 61, f 62, f 63, f 64, f 65, f 66, f 67, f 68, f 69, f 70, f
       71, f 72, f 73, f 74, f 75, f 76, f 77, f 78, f 79, f 80, f 81, f 82, f 83, f 84, f
       85, f 86, f 87, f 88, f 89, f 90, f 91, f 92, f 93, f 94, f 95, f 96, f 97, f 98, f
       99, f 100]"
  by (simp add: upt_rec eval_nat_numeral)

lemma defuzzify_sums:
  "defuzzify var aggregated =
     (let sum_weighted = sum_list (map2 (\<lambda>c a. c * a) (map (crisp var) [0..<FUZZY_RESOLUTION]) aggregated);
          sum_membership = sum_list (take FUZZY_RESOLUTION aggregated)
      in if sum_membership < 0.001 then 0 else sum_weighted / sum_membership)"
proof -
  have "(\<Sum>(x, a)\<leftarrow>zip [0..<FUZZY_RESOLUTION] aggregated. a)
      = sum_list (map snd (zip [0..<FUZZY_RESOLUTION] aggregated))"
    by (simp add: case_prod_unfold)
  then have m: "(\<Sum>(x, a)\<leftarrow>zip [0..<FUZZY_RESOLUTION] aggregated. a)
      = sum_list (take FUZZY_RESOLUTION aggregated)"
    by (simp add: map_snd_zip_take min_def)
  have w: "(\<Sum>(x, a)\<leftarrow>zip [0..<FUZZY_RESOLUTION] aggregated. crisp var x * a)
      = sum_list (map2 (\<lambda>c a. c * a) (map (crisp var) [0..<FUZZY_RESOLUTION]) aggregated)"
    by (simp add: zip_map1 case_prod_unfold comp_def)
  show ?thesis
    by (simp only: defuzzify_def m w)
qed

lemma replicate_numerals:
  "replicate 7 x = [x, x, x, x, x, x, x]"
  "replicate 6 x = [x, x, x, x, x, x]"
  "replicate 4 x = [x, x, x, x]"
  "replicate 101 x = [x, x, x, x, x, x, x, x, x, x, x, x, x, x, x, x, x, x, x, x, x, x, x,
    x, x, x, x, x, x, x, x, x, x, x, x, x, x, x, x, x, x, x, x, x, x, x, x, x, x, x, x, x, x,
    x, x, x, x, x, x, x, x, x, x, x, x, x, x, x, x, x, x, x, x, x, x, x, x, x, x, x, x, x, x,
    x, x, x, x, x, x, x, x, x, x, x, x, x, x, x, x, x, x]"
  by (simp_all add: numeral_eq_Suc)

lemma mem_at_setpoints:
  "fuzzify_inputs sensor_inputs at_setpoints =
    [[0,0,1,0,0,0,0],[0,0,1,0,0,0,0],[0,0,1,0,0,0,0],[0,0,1,0,0,0,0],[0,1,0,0,0,0,0],[0,0,1,0,0,0,0]]"
  by (simp add: fuzzy_scenario_defs fuzzy_consts fuzzy_defs upt_numerals replicate_numerals)

lemma fs_at_setpoints:
  "map (firing_strength at_setpoints (fuzzify_inputs sensor_inputs at_setpoints)) (f_rules at_setpoints)
    = [1, 1, 0, 0, 1, 0, 0, 0, 0.8, 0.9, 0, 0, 0, 1, 0.7, 0, 0, 0, 0.7, 0.9, 1, 0, 0, 0, 0.8]"
  unfolding mem_at_setpoints
  by (simp add: fuzzy_scenario_defs fuzzy_consts firing_strength_def Let_def upt_numerals replicate_numerals)


lemma clip_into_sample:
  "clip_into out_var term fs agg = map2 (\<lambda>m a. max a (min m fs)) (sample out_var term) agg"
  by (simp add: clip_into_def sample_def zip_map1 case_prod_unfold)

lemma sample_zero:
  "sample \<lparr>min_value = 0, max_value = 100, num_sets = 5, sets = output_sets\<rparr> 0 =
     [0, 24 / 25, 23 / 25, 22 / 25, 21 / 25, 4 / 5, 19 / 25, 18 / 25, 17 / 25, 16 / 25, 3 /
       5, 14 / 25, 13 / 25, 12 / 25, 11 / 25, 2 / 5, 9 / 25, 8 / 25, 7 / 25, 6 / 25, 1 / 5, 4
       / 25, 3 / 25, 2 / 25, 1 / 25, 0, 0, 0, 0, 0, 0, 0, 0, 0, 0, 0, 0, 0, 0, 0, 0, 0, 0, 0,
       0, 0, 0, 0, 0, 0, 0, 0, 0, 0, 0, 0, 0, 0, 0, 0, 0, 0, 0, 0, 0, 0, 0, 0, 0, 0, 0, 0, 0,
       0, 0, 0, 0, 0, 0, 0, 0, 0, 0, 0, 0, 0, 0, 0, 0, 0, 0, 0, 0, 0, 0, 0, 0, 0, 0, 0, 0]"
  by (simp add: sample_def map_upt_resolution crisp_def evaluateMF_def Let_def output_sets_def
      tri_def FUZZY_RESOLUTION_def)

lemma sample_low:
  "sample \<lparr>min_value = 0, max_value = 100, num_sets = 5, sets = output_sets\<rparr> (Suc 0) =
     [0, 1 / 25, 2 / 25, 3 / 25, 4 / 25, 1 / 5, 6 / 25, 7 / 25, 8 / 25, 9 / 25, 2 / 5, 11 /
       25, 12 / 25, 13 / 25, 14 / 25, 3 / 5, 16 / 25, 17 / 25, 18 / 25, 19 / 25, 4 / 5, 21 /
       25, 22 / 25, 23 / 25, 24 / 25, 1, 24 / 25, 23 / 25, 22 / 25, 21 / 25, 4 / 5, 19 / 25,
       18 / 25, 17 / 25, 16 / 25, 3 / 5, 14 / 25, 13 / 25, 12 / 25, 11 / 25, 2 / 5, 9 / 25, 8
       / 25, 7 / 25, 6 / 25, 1 / 5, 4 / 25, 3 / 25, 2 / 25, 1 / 25, 0, 0, 0, 0, 0, 0, 0, 0, 0,
       0, 0, 0, 0, 0, 0, 0, 0, 0, 0, 0, 0, 0, 0, 0, 0, 0, 0, 0, 0, 0, 0, 0, 0, 0, 0, 0, 0, 0,
       0, 0, 0, 0, 0, 0, 0, 0, 0, 0, 0, 0, 0]"
  by (simp add: sample_def map_upt_resolution crisp_def evaluateMF_def Let_def output_sets_def
      tri_def FUZZY_RESOLUTION_def)

lemma sample_high:
  "sample \<lparr>min_value = 0, max_value = 100, num_sets = 5, sets = output_sets\<rparr> 3 =
     [0, 0, 0, 0, 0, 0, 0, 0, 0, 0, 0, 0, 0, 0, 0, 0, 0, 0, 0, 0, 0, 0, 0, 0, 0, 0, 0, 0, 0,
       0, 0, 0, 0, 0, 0, 0, 0, 0, 0, 0, 0, 0, 0, 0, 0, 0, 0, 0, 0, 0, 0, 1 / 25, 2 / 25, 3 /
       25, 4 / 25, 1 / 5, 6 / 25, 7 / 25, 8 / 25, 9 / 25, 2 / 5, 11 / 25, 12 / 25, 13 / 25, 14
       / 25, 3 / 5, 16 / 25, 17 / 25, 18 / 25, 19 / 25, 4 / 5, 21 / 25, 22 / 25, 23 / 25, 24 /
       25, 1, 24 / 25, 23 / 25, 22 / 25, 21 / 25, 4 / 5, 19 / 25, 18 / 25, 17 / 25, 16 / 25, 3
       / 5, 14 / 25, 13 / 25, 12 / 25, 11 / 25, 2 / 5, 9 / 25, 8 / 25, 7 / 25, 6 / 25, 1 / 5,
       4 / 25, 3 / 25, 2 / 25, 1 / 25, 0]"
  by (simp add: sample_def map_upt_resolution crisp_def evaluateMF_def Let_def output_sets_def
      tri_def FUZZY_RESOLUTION_def)

lemma aggregate_rule_nth:
  "k < FUZZY_MAX_OUTPUTS \<Longrightarrow>
   aggregate_rule fc ru fs aggs ! k =
     (if consequent ru ! k = DONT_CARE \<or> consequent ru ! k \<ge> num_sets (f_outputs fc ! k)
      then aggs ! k else clip_into (f_outputs fc ! k) (consequent ru ! k) fs (aggs ! k))"
  by (simp add: aggregate_rule_def Let_def)

lemma length_aggregate_rule: "length (aggregate_rule fc ru fs aggs) = FUZZY_MAX_OUTPUTS"
  by (simp add: aggregate_rule_def)

lemma apply_rule_nth:
  "k < FUZZY_MAX_OUTPUTS \<Longrightarrow>
   aggregation (apply_rule fc mem (r, ru) acc) ! k = rule_step fc mem k ru (aggregation acc ! k)"
  by (auto simp: apply_rule_def rule_step_def Let_def aggregate_rule_nth)

lemma fold_apply_rule_nth:
  "k < FUZZY_MAX_OUTPUTS \<Longrightarrow>
   aggregation (fold (apply_rule fc mem) irs acc) ! k
     = fold (rule_step fc mem k) (map snd irs) (aggregation acc ! k)"
proof (induction irs arbitrary: acc)
  case Nil
  then show ?case by simp
next
  case (Cons ir irs)
  obtain r ru where ir: "ir = (r, ru)" by (cases ir)
  show ?case
    using Cons.IH[OF Cons.prems, of "apply_rule fc mem (r, ru) acc"] Cons.prems
    by (simp add: ir apply_rule_nth)
qed

lemma infer_rates:
  "blowdown_rate (infer fc mem) =
     defuzzify (f_outputs fc ! FUZZY_OUT_BLOWDOWN)
       (fold (rule_step fc mem FUZZY_OUT_BLOWDOWN) (f_rules fc) (replicate FUZZY_RESOLUTION 0))"
  "caustic_rate (infer fc mem) =
     defuzzify (f_outputs fc ! FUZZY_OUT_CAUSTIC)
       (fold (rule_step fc mem FUZZY_OUT_CAUSTIC) (f_rules fc) (replicate FUZZY_RESOLUTION 0))"
  "sulfite_rate (infer fc mem) =
     defuzzify (f_outputs fc ! FUZZY_OUT_SULFITE)
       (fold (rule_step fc mem FUZZY_OUT_SULFITE) (f_rules fc) (replicate FUZZY_RESOLUTION 0))"
  "acid_rate (infer fc mem) =
     defuzzify (f_outputs fc ! FUZZY_OUT_ACID)
       (fold (rule_step fc mem FUZZY_OUT_ACID) (f_rules fc) (replicate FUZZY_RESOLUTION 0))"
  by (simp_all add: infer_def Let_def fold_apply_rule_nth FUZZY_OUT_BLOWDOWN_def
      FUZZY_OUT_CAUSTIC_def FUZZY_OUT_SULFITE_def FUZZY_OUT_ACID_def FUZZY_MAX_OUTPUTS_def
      replicate_numerals)

lemma outputs_at_setpoints: "f_outputs at_setpoints = [output_var, output_var, output_var, output_var]"
  by (simp add: at_setpoints_def setManualInput_def fuzzy_begin_def initOutputVariables_def
      output_var_def replicate_numerals)

lemma inputs_num_sets:
  "map num_sets (f_inputs at_setpoints) = [5, 5, 5, 5, 3, 5]"
  by (simp add: at_setpoints_def setManualInput_def fuzzy_begin_def updateMembershipFunctions_def Let_def)

lemma rules_at_setpoints: "f_rules at_setpoints = loadDefaultRules"
  by (simp add: at_setpoints_def setManualInput_def fuzzy_begin_def)

lemma inputs_at_setpoints: "f_inputs at_setpoints = updateMembershipFunctions typical_fuzzy_config"
  by (simp add: at_setpoints_def setManualInput_def fuzzy_begin_def)

lemma num_sets_output_var: "num_sets output_var = 5"
  by (simp add: output_var_def)

lemmas rule_eval = rule_step_def firing_strength_def upt_numerals fuzzy_consts Let_def
  outputs_at_setpoints rules_at_setpoints inputs_at_setpoints num_sets_output_var
  loadDefaultRules_def rule_def updateMembershipFunctions_def

lemma bd_agg:
  "fold (rule_step at_setpoints (fuzzify_inputs sensor_inputs at_setpoints) FUZZY_OUT_BLOWDOWN)
     (f_rules at_setpoints) (replicate FUZZY_RESOLUTION 0) = [0, 1 / 25, 2 / 25, 3 / 25, 4 /
       25, 1 / 5, 6 / 25, 7 / 25, 8 / 25, 9 / 25, 2 / 5, 11 / 25, 12 / 25, 13 / 25, 14 / 25, 3
       / 5, 16 / 25, 17 / 25, 7 / 10, 7 / 10, 7 / 10, 7 / 10, 7 / 10, 7 / 10, 7 / 10, 7 / 10,
       7 / 10, 7 / 10, 7 / 10, 7 / 10, 7 / 10, 7 / 10, 7 / 10, 17 / 25, 16 / 25, 3 / 5, 14 /
       25, 13 / 25, 12 / 25, 11 / 25, 2 / 5, 9 / 25, 8 / 25, 7 / 25, 6 / 25, 1 / 5, 4 / 25, 3
       / 25, 2 / 25, 1 / 25, 0, 1 / 25, 2 / 25, 3 / 25, 4 / 25, 1 / 5, 6 / 25, 7 / 25, 8 / 25,
       9 / 25, 2 / 5, 11 / 25, 12 / 25, 13 / 25, 14 / 25, 3 / 5, 16 / 25, 17 / 25, 18 / 25, 19
       / 25, 4 / 5, 4 / 5, 4 / 5, 4 / 5, 4 / 5, 4 / 5, 4 / 5, 4 / 5, 4 / 5, 4 / 5, 4 / 5, 19 /
       25, 18 / 25, 17 / 25, 16 / 25, 3 / 5, 14 / 25, 13 / 25, 12 / 25, 11 / 25, 2 / 5, 9 /
       25, 8 / 25, 7 / 25, 6 / 25, 1 / 5, 4 / 25, 3 / 25, 2 / 25, 1 / 25, 0]"
proof -
  have "fold (rule_step at_setpoints (fuzzify_inputs sensor_inputs at_setpoints) FUZZY_OUT_BLOWDOWN)
     (f_rules at_setpoints) (replicate FUZZY_RESOLUTION 0)
     = clip_into output_var 3 (4 / 5) (clip_into output_var (Suc 0) (7 / 10)
         (clip_into output_var 3 (4 / 5) (replicate 101 0)))"
    unfolding mem_at_setpoints by (simp add: rule_eval)
  also have "\<dots> = [0, 1 / 25, 2 / 25, 3 / 25, 4 / 25, 1 / 5, 6 / 25, 7 / 25, 8 / 25, 9
    / 25, 2 / 5, 11 / 25, 12 / 25, 13 / 25, 14 / 25, 3 / 5, 16 / 25, 17 / 25, 7 / 10, 7 / 10,
    7 / 10, 7 / 10, 7 / 10, 7 / 10, 7 / 10, 7 / 10, 7 / 10, 7 / 10, 7 / 10, 7 / 10, 7 / 10, 7
    / 10, 7 / 10, 17 / 25, 16 / 25, 3 / 5, 14 / 25, 13 / 25, 12 / 25, 11 / 25, 2 / 5, 9 / 25,
    8 / 25, 7 / 25, 6 / 25, 1 / 5, 4 / 25, 3 / 25, 2 / 25, 1 / 25, 0, 1 / 25, 2 / 25, 3 / 25,
    4 / 25, 1 / 5, 6 / 25, 7 / 25, 8 / 25, 9 / 25, 2 / 5, 11 / 25, 12 / 25, 13 / 25, 14 / 25,
    3 / 5, 16 / 25, 17 / 25, 18 / 25, 19 / 25, 4 / 5, 4 / 5, 4 / 5, 4 / 5, 4 / 5, 4 / 5, 4 /
    5, 4 / 5, 4 / 5, 4 / 5, 4 / 5, 19 / 25, 18 / 25, 17 / 25, 16 / 25, 3 / 5, 14 / 25, 13 /
    25, 12 / 25, 11 / 25, 2 / 5, 9 / 25, 8 / 25, 7 / 25, 6 / 25, 1 / 5, 4 / 25, 3 / 25, 2 /
    25, 1 / 25, 0]"
    unfolding output_var_def clip_into_sample sample_low sample_high
    by (simp add: replicate_numerals)
  finally show ?thesis .
qed

lemma bd_centroid:
  "defuzzify output_var [0, 1 / 25, 2 / 25, 3 / 25, 4 / 25, 1 / 5, 6 / 25, 7 / 25, 8 / 25, 9 /
    25, 2 / 5, 11 / 25, 12 / 25, 13 / 25, 14 / 25, 3 / 5, 16 / 25, 17 / 25, 7 / 10, 7 / 10, 7
    / 10, 7 / 10, 7 / 10, 7 / 10, 7 / 10, 7 / 10, 7 / 10, 7 / 10, 7 / 10, 7 / 10, 7 / 10, 7 /
    10, 7 / 10, 17 / 25, 16 / 25, 3 / 5, 14 / 25, 13 / 25, 12 / 25, 11 / 25, 2 / 5, 9 / 25, 8
    / 25, 7 / 25, 6 / 25, 1 / 5, 4 / 25, 3 / 25, 2 / 25, 1 / 25, 0, 1 / 25, 2 / 25, 3 / 25, 4
    / 25, 1 / 5, 6 / 25, 7 / 25, 8 / 25, 9 / 25, 2 / 5, 11 / 25, 12 / 25, 13 / 25, 14 / 25, 3
    / 5, 16 / 25, 17 / 25, 18 / 25, 19 / 25, 4 / 5, 4 / 5, 4 / 5, 4 / 5, 4 / 5, 4 / 5, 4 / 5,
    4 / 5, 4 / 5, 4 / 5, 4 / 5, 19 / 25, 18 / 25, 17 / 25, 16 / 25, 3 / 5, 14 / 25, 13 / 25,
    12 / 25, 11 / 25, 2 / 5, 9 / 25, 8 / 25, 7 / 25, 6 / 25, 1 / 5, 4 / 25, 3 / 25, 2 / 25, 1
    / 25, 0] = 39475 / 779"
  by (simp add: defuzzify_sums map_upt_resolution output_var_def crisp_def FUZZY_RESOLUTION_def)

lemma zero_agg:
  "fold (rule_step at_setpoints (fuzzify_inputs sensor_inputs at_setpoints) FUZZY_OUT_CAUSTIC)
     (f_rules at_setpoints) (replicate FUZZY_RESOLUTION 0) = [0, 24 / 25, 23 / 25, 22 / 25,
       21 / 25, 4 / 5, 19 / 25, 18 / 25, 17 / 25, 16 / 25, 3 / 5, 14 / 25, 13 / 25, 12 / 25,
       11 / 25, 2 / 5, 9 / 25, 8 / 25, 7 / 25, 6 / 25, 1 / 5, 4 / 25, 3 / 25, 2 / 25, 1 / 25,
       0, 0, 0, 0, 0, 0, 0, 0, 0, 0, 0, 0, 0, 0, 0, 0, 0, 0, 0, 0, 0, 0, 0, 0, 0, 0, 0, 0, 0,
       0, 0, 0, 0, 0, 0, 0, 0, 0, 0, 0, 0, 0, 0, 0, 0, 0, 0, 0, 0, 0, 0, 0, 0, 0, 0, 0, 0, 0,
       0, 0, 0, 0, 0, 0, 0, 0, 0, 0, 0, 0, 0, 0, 0, 0, 0, 0]"
  "fold (rule_step at_setpoints (fuzzify_inputs sensor_inputs at_setpoints) FUZZY_OUT_SULFITE)
     (f_rules at_setpoints) (replicate FUZZY_RESOLUTION 0) = [0, 24 / 25, 23 / 25, 22 / 25,
       21 / 25, 4 / 5, 19 / 25, 18 / 25, 17 / 25, 16 / 25, 3 / 5, 14 / 25, 13 / 25, 12 / 25,
       11 / 25, 2 / 5, 9 / 25, 8 / 25, 7 / 25, 6 / 25, 1 / 5, 4 / 25, 3 / 25, 2 / 25, 1 / 25,
       0, 0, 0, 0, 0, 0, 0, 0, 0, 0, 0, 0, 0, 0, 0, 0, 0, 0, 0, 0, 0, 0, 0, 0, 0, 0, 0, 0, 0,
       0, 0, 0, 0, 0, 0, 0, 0, 0, 0, 0, 0, 0, 0, 0, 0, 0, 0, 0, 0, 0, 0, 0, 0, 0, 0, 0, 0, 0,
       0, 0, 0, 0, 0, 0, 0, 0, 0, 0, 0, 0, 0, 0, 0, 0, 0, 0]"
  unfolding mem_at_setpoints
  by (simp_all add: rule_eval output_var_def clip_into_sample sample_zero replicate_numerals)

lemma zero_centroid:
  "defuzzify output_var [0, 24 / 25, 23 / 25, 22 / 25, 21 / 25, 4 / 5, 19 / 25, 18 / 25, 17 /
    25, 16 / 25, 3 / 5, 14 / 25, 13 / 25, 12 / 25, 11 / 25, 2 / 5, 9 / 25, 8 / 25, 7 / 25, 6 /
    25, 1 / 5, 4 / 25, 3 / 25, 2 / 25, 1 / 25, 0, 0, 0, 0, 0, 0, 0, 0, 0, 0, 0, 0, 0, 0, 0, 0,
    0, 0, 0, 0, 0, 0, 0, 0, 0, 0, 0, 0, 0, 0, 0, 0, 0, 0, 0, 0, 0, 0, 0, 0, 0, 0, 0, 0, 0, 0,
    0, 0, 0, 0, 0, 0, 0, 0, 0, 0, 0, 0, 0, 0, 0, 0, 0, 0, 0, 0, 0, 0, 0, 0, 0, 0, 0, 0, 0, 0]
    = 26 / 3"
  by (simp add: defuzzify_sums map_upt_resolution output_var_def crisp_def FUZZY_RESOLUTION_def)

section \<open>The claims\<close>

subsection \<open>C1: the no-flow interlock\<close>

text \<open>
  C1 says that every tick with \<open>flow_ok = false\<close> forces the valve closed, so that after the
  tick the valve is never open or opening, also when the tick starts in ValveOpening.  The
  interlock of \<open>update\<close> only acts when \<open>valve_open\<close> is set, and a motorized valve that is
  still travelling has \<open>valve_open = false\<close> with the relay energized.  Here the controller
  with the ball-valve configuration sees conductivity 2600 above the setpoint 2500 at
  1000 ms and starts to open the valve; flow is lost at 1100 ms and stays lost.  After the
  two no-flow ticks the relay is still energized, the state is still ValveOpening and
  \<open>isActive\<close> still reports a blowdown: the interlock did nothing.
\<close>

theorem no_flow_leaves_valve_opening:
  "relay_energized (status (run_ticks ball_valve_controller
       [(1000, 2600, True), (1100, 2600, False), (9000, 2600, False)]))
   \<and> state (status (run_ticks ball_valve_controller
       [(1000, 2600, True), (1100, 2600, False), (9000, 2600, False)])) = BD_STATE_VALVE_OPENING
   \<and> isActive (run_ticks ball_valve_controller
       [(1000, 2600, True), (1100, 2600, False), (9000, 2600, False)])"
  by (simp add: scenario_defs tick_defs isActive_def)

subsection \<open>C2: the blowdown timeout\<close>



subsection \<open>C3: continuous mode, direction HIGH\<close>




text \<open>What the amended statement leaves out.  \<open>openValve\<close> does not clear
  \<open>current_blowdown_time\<close>, and \<open>checkTimeout\<close> runs before \<open>update\<close> refreshes it.  After the
  discharge of 300 s has ended regularly (the valve closed on 2440, the state is Idle, no
  timeout is pending), the recorded time is still 300000 ms; the tick that opens the valve
  again on 2600 therefore raises the timeout at once and the valve ends the tick closed.\<close>

lemma stale_discharge_time_raises_timeout:
  "state (status closed_after_discharge) = BD_STATE_IDLE
   \<and> \<not> valve_open (status closed_after_discharge)
   \<and> \<not> timeout_flag (status closed_after_discharge)
   \<and> \<not> waiting_for_reset (status closed_after_discharge)
   \<and> current_blowdown_time (status closed_after_discharge) = 300000
   \<and> \<not> valve_open (status (update 400000 2600 True closed_after_discharge))
   \<and> timeout_flag (status (update 400000 2600 True closed_after_discharge))
   \<and> state (status (update 400000 2600 True closed_after_discharge)) = BD_STATE_TIMEOUT"
  by (simp add: closed_after_discharge_def long_discharge_controller_def scenario_defs tick_defs)
subsection \<open>C6: the proportional discharge time\<close>

text \<open>The arithmetic of \<open>calculateProportionalTime\<close> at the default configuration (setpoint
  2500, proportional band 200, cap 600 s) for the conductivities 2521 and 2600.\<close>

lemma fl32_21_200: "fl32 (21 / 200) = 14092861 / 134217728"
  using fl32_eval[of "- 4" "21 / 200"] by (simp add: pow2_def round_even_def)

lemma fl32_62999: "fl32 (132120571875 / 2097152) = 16127999 / 256"
  \<comment> \<open>the product \<open>14092861 / 134217728 \<times> 600000\<close>, about 62999.998, rounded\<close>
  using fl32_eval[of 15 "132120571875 / 2097152"] by (simp add: pow2_def round_even_def)

lemma prop_time_ms_2521: "prop_time_ms 2500 200 600000 2521 = 62999"
proof -
  have "fl32 (real 21) = real 21" by (rule fl32_nat) simp
  then have a: "fl32 21 = 21" by simp
  show ?thesis by (simp add: prop_time_ms_def a fl32_21_200 fl32_62999)
qed

lemma prop_time_ms_2600: "prop_time_ms 2500 200 600000 2600 = 300000"
proof -
  have "fl32 (real 100) = real 100" by (rule fl32_nat) simp
  then have a: "fl32 100 = 100" by simp
  have "fl32 (real 1 * pow2 (- 1)) = real 1 * pow2 (- 1)" by (rule fl32_exact) simp_all
  then have b: "fl32 (1 / 2) = 1 / 2" by (simp add: pow2_def)
  have "fl32 (real 300000) = real 300000" by (rule fl32_nat) simp
  then have c: "fl32 300000 = 300000" by simp
  show ?thesis by (simp add: prop_time_ms_def a b c)
qed

text \<open>And for setpoint 0, proportional band 1000 and a cap of 1 s at the conductivity
  251: the quotient \<open>251 / 1000\<close> rounds to \<open>4211081 / 16777216\<close>, the product with 1000
  to a little less than 251, and the result is 250 ms.\<close>

lemma fl32_251_1000: "fl32 (251 / 1000) = 4211081 / 16777216"
  using fl32_eval[of "- 2" "251 / 1000"] by (simp add: pow2_def round_even_def)

lemma fl32_250: "fl32 (526385125 / 2097152) = 16449535 / 65536"
  using fl32_eval[of 7 "526385125 / 2097152"] by (simp add: pow2_def round_even_def)

lemma prop_time_ms_251: "prop_time_ms 0 1000 1000 251 = 250"
proof -
  have "fl32 (real 251) = real 251" by (rule fl32_nat) simp
  then have a: "fl32 251 = 251" by simp
  show ?thesis by (simp add: prop_time_ms_def a fl32_251_1000 fl32_250)
qed

lemma proportional_controller_time:
  "unat (calculateProportionalTime v proportional_controller) = prop_time_ms 2500 200 600000 v"
proof -
  have c: "config proportional_controller = Some solenoid_config"
    and cc: "cond_config proportional_controller = Some proportional_config"
    and pb: "prop_band proportional_config \<noteq> 0"
    by (simp_all add: scenario_defs)
  show ?thesis
    using calculateProportionalTime_closed_form[OF c cc pb, of v] by (simp add: scenario_defs)
qed

text \<open>
  C6 as stated (the duration equals the formula) fails by the rounding of the \<open>float\<close>
  arithmetic.  At the default configuration and a conductivity of 2521 the formula
  \<open>min(1, (2521 - 2500) / 200) \<times> 600 s\<close> is 63000 ms exactly; the code computes
  \<open>21 / 200\<close> in single precision, which is a little less than 0.105, and the product
  truncates to 62999 ms.
\<close>

theorem proportional_time_rounding_counterexample:
  "config proportional_controller = Some solenoid_config
   \<and> cond_config proportional_controller = Some proportional_config
   \<and> setpoint solenoid_config = 2500
   \<and> prop_band proportional_config = 200
   \<and> max_prop_time_seconds proportional_config = 600
   \<and> min 1 ((2521 - 2500) / 200) * (600 * 1000) = (63000 :: real)
   \<and> unat (calculateProportionalTime 2521 proportional_controller) = 62999"
  by (simp add: proportional_controller_time prop_time_ms_2521) (simp add: scenario_defs)

text \<open>
  C6 as amended: with both configurations present and a positive proportional band, the
  discharge time that \<open>calculateProportionalTime\<close> computes in single precision is 0 for
  every deviation \<open>conductivity - setpoint \<le> 0\<close>, is monotonically non-decreasing in the
  conductivity (hence in the deviation), equals \<open>max_prop_time_seconds\<close> (in milliseconds)
  exactly for every deviation \<open>\<ge> prop_band\<close>, and for a positive deviation differs from
  \<open>min(1, deviation / prop_band) \<times> max_prop_time\<close> by at most 1 ms plus \<open>max_prop_time\<close>
  divided by \<open>2 ^ 22\<close>.
\<close>

theorem proportional_time:
  assumes cfg: "config c = Some cfg" and cc: "cond_config c = Some cc"
    and pb: "prop_band cc \<noteq> 0"
  shows "(v \<le> real (unat (setpoint cfg)) \<longrightarrow> calculateProportionalTime v c = 0)
     \<and> (v1 \<le> v2 \<longrightarrow> unat (calculateProportionalTime v1 c) \<le> unat (calculateProportionalTime v2 c))
     \<and> (v - real (unat (setpoint cfg)) \<ge> real (unat (prop_band cc))
          \<longrightarrow> unat (calculateProportionalTime v c) = unat (max_prop_time_seconds cc) * 1000)
     \<and> (v > real (unat (setpoint cfg)) \<longrightarrow>
          \<bar>real (unat (calculateProportionalTime v c))
            - min 1 ((v - real (unat (setpoint cfg))) / real (unat (prop_band cc)))
                * real (unat (max_prop_time_seconds cc) * 1000)\<bar>
          \<le> 1 + real (unat (max_prop_time_seconds cc) * 1000) / 4194304)"
proof (intro conjI impI)
  note cf = calculateProportionalTime_closed_form[OF cfg cc pb]
  have b: "0 < real (unat (prop_band cc))" by (rule real_unat_pos[OF pb])
  have "0 < unat (prop_band cc)" using pb by (simp add: unat_gt_0)
  then have "1 \<le> unat (prop_band cc)" by simp
  then have b1: "1 \<le> real (unat (prop_band cc))" by (simp only: of_nat_1_eq_iff[symmetric] of_nat_le_iff) 
  have fb: "fl32 (real (unat (prop_band cc))) = real (unat (prop_band cc))"
    using float_of_u16_exact[of "prop_band cc"] by (simp only: float_of_u16_def)
  have fm: "fl32 (real (unat (max_prop_time_seconds cc) * 1000))
      = real (unat (max_prop_time_seconds cc) * 1000)" by (rule fl32_ms)
  show "calculateProportionalTime v c = 0" if "v \<le> real (unat (setpoint cfg))"
  proof -
    have "unat (calculateProportionalTime v c) = 0"
      unfolding cf using that by (rule prop_time_ms_nonpos)
    then show ?thesis by (simp only: unat_eq_0)
  qed
  show "unat (calculateProportionalTime v1 c) \<le> unat (calculateProportionalTime v2 c)" if "v1 \<le> v2"
    unfolding cf using b that by (rule prop_time_ms_mono)
  show "unat (calculateProportionalTime v c) = unat (max_prop_time_seconds cc) * 1000"
    if "real (unat (prop_band cc)) \<le> v - real (unat (setpoint cfg))"
    unfolding cf using b fb fm that by (rule prop_time_ms_top)
  show "\<bar>real (unat (calculateProportionalTime v c))
            - min 1 ((v - real (unat (setpoint cfg))) / real (unat (prop_band cc)))
                * real (unat (max_prop_time_seconds cc) * 1000)\<bar>
          \<le> 1 + real (unat (max_prop_time_seconds cc) * 1000) / 4194304"
    if "real (unat (setpoint cfg)) < v"
    unfolding cf using b1 fb fm that by (rule prop_time_ms_error)
qed

text \<open>The default configuration: no discharge at 2400, 300 s at 2600, which is half the
  band, the cap of 600 s at 2700, and 62999 ms at 2521, within the bound of the exact
  63000 ms.\<close>

theorem proportional_time_witness:
  "calculateProportionalTime 2400 proportional_controller = 0
   \<and> unat (calculateProportionalTime 2600 proportional_controller)
       \<le> unat (calculateProportionalTime 2650 proportional_controller)
   \<and> unat (calculateProportionalTime 2700 proportional_controller) = 600000
   \<and> \<bar>real (unat (calculateProportionalTime 2521 proportional_controller)) - 63000\<bar>
       \<le> 1 + 600000 / 4194304
   \<and> unat (calculateProportionalTime 2600 proportional_controller) = 300000"
proof -
  have c: "config proportional_controller = Some solenoid_config"
    and cc: "cond_config proportional_controller = Some proportional_config"
    and pb: "prop_band proportional_config \<noteq> 0"
    by (simp_all add: scenario_defs)
  note t = proportional_time[OF c cc pb]
  have "calculateProportionalTime 2400 proportional_controller = 0"
    using t[of 2400] by (simp add: scenario_defs)
  moreover have "unat (calculateProportionalTime 2600 proportional_controller)
       \<le> unat (calculateProportionalTime 2650 proportional_controller)"
    using t[of _ 2600 2650] by simp
  moreover have "unat (calculateProportionalTime 2700 proportional_controller) = 600000"
    using t[of 2700] by (simp add: scenario_defs)
  moreover have "\<bar>real (unat (calculateProportionalTime 2521 proportional_controller)) - 63000\<bar>
       \<le> 1 + 600000 / 4194304"
    using t[of 2521] by (simp add: scenario_defs)
  moreover have "unat (calculateProportionalTime 2600 proportional_controller) = 300000"
    by (simp add: proportional_controller_time prop_time_ms_2600)
  ultimately show ?thesis by simp
qed
subsection \<open>C7: when the sampling modes open the valve\<close>

text \<open>
  C7 as stated (the valve is never commanded open before \<open>interval_seconds\<close> have elapsed
  since the last sample cycle began, also on the re-check path from Holding) fails on that
  path.  In Intermittent mode with a 3600 s interval and a 60 s hold time, a cycle begins at
  3600000 ms, the valve closes at 3600100 ms when conductivity is below the setpoint, and at
  3660100 ms, 60.1 s after the cycle began, Holding finds 2600 above the setpoint 2500 and
  the valve is opened again.
\<close>

theorem recheck_opens_before_interval_counterexample:
  "sample_mode intermittent_config = SAMPLE_MODE_INTERMITTENT
   \<and> interval_timer (run_ticks intermittent_controller
        [(3600000, 2600, True), (3600100, 2400, True)]) = 3600000
   \<and> \<not> relay_energized (status (run_ticks intermittent_controller
        [(3600000, 2600, True), (3600100, 2400, True)]))
   \<and> 3660100 - (3600000 :: u32) < ms (interval_seconds intermittent_config)
   \<and> relay_energized (status (run_ticks intermittent_controller
        [(3600000, 2600, True), (3600100, 2400, True), (3660100, 2600, True)]))
   \<and> valve_open (status (run_ticks intermittent_controller
        [(3600000, 2600, True), (3600100, 2400, True), (3660100, 2600, True)]))"
  by (simp add: scenario_defs tick_defs)

text \<open>
  C7 as amended: in the Intermittent, TimedBlowdown and TimeProportional modes, in Auto, a
  tick commands a closed valve open (the relay goes from de-energized to energized) only if
  flow is present, a blowdown configuration is set and either the tick starts in Idle or
  Waiting and \<open>interval_seconds\<close> have elapsed since the last sample cycle began, or the
  tick starts in Holding, \<open>hold_time_seconds\<close> have elapsed since the sample was trapped
  and conductivity is above the setpoint.  The second path is not gated by the interval.
\<close>

theorem sampling_modes_open_on_schedule:
  assumes cc: "cond_config c = Some cc" and mode: "sample_mode cc \<noteq> SAMPLE_MODE_CONTINUOUS"
    and auto: "hoa_mode (status c) = HOA_AUTO"
    and off: "\<not> relay_energized (status c)"
    and on: "relay_energized (status (update now v flow_ok c))"
  shows "flow_ok
     \<and> (\<exists>cfg. config c = Some cfg
          \<and> (((state (status c) = BD_STATE_IDLE \<or> state (status c) = BD_STATE_WAITING)
               \<and> ms (interval_seconds cc) \<le> now - interval_timer c)
             \<or> (state (status c) = BD_STATE_HOLDING
                 \<and> ms (hold_time_seconds cc) \<le> now - hold_timer c
                 \<and> real (unat (setpoint cfg)) < v)))"
proof -
  have a: "processHOA now (set_last v c) = set_last v c"
    using auto by (simp add: processHOA_auto set_last_def)
  have f: "flow_ok"
    using on off by (auto simp: update_unfold relay_ops closeValve_set_last split: if_splits)
  have h': "hoa_mode (status (set_last v c)) = HOA_AUTO"
    using auto by (simp add: set_last_def)
  have "relay_energized (status (update now v True c))"
    using on f by simp
  then have "relay_energized (status (checkTimeout now (sample_step now v (set_last v c))))"
    using off
    by (simp add: update_unfold a h' Let_def checkBallValveComplete_relay relay_ops
        split: if_splits)
  then have "relay_energized (status (sample_step now v c))"
    by (auto dest!: checkTimeout_relay simp: sample_step_set_last relay_ops)
  then have "scheduled_open now v cc c"
    using cc mode off by (intro sample_step_opens)
  then show ?thesis using f by (simp add: scheduled_open_def)
qed

theorem sampling_modes_open_on_schedule_witness:
  "ms (interval_seconds intermittent_config) \<le> 3600000 - interval_timer intermittent_controller
   \<and> relay_energized (status (update 3600000 2600 True intermittent_controller))"
proof -
  have h: "cond_config intermittent_controller = Some intermittent_config"
    "sample_mode intermittent_config \<noteq> SAMPLE_MODE_CONTINUOUS"
    "hoa_mode (status intermittent_controller) = HOA_AUTO"
    "\<not> relay_energized (status intermittent_controller)"
    by (simp_all add: scenario_defs)
  have on: "relay_energized (status (update 3600000 2600 True intermittent_controller))"
    by (simp add: scenario_defs tick_defs)
  have "state (status intermittent_controller) = BD_STATE_IDLE"
    by (simp add: scenario_defs)
  then show ?thesis
    using sampling_modes_open_on_schedule[OF h on] on by simp
qed

subsection \<open>C5: feed mode B, percent of blowdown\<close>

text \<open>
  C5 as stated (on the first idle tick after the blowdown the pump is started for
  \<open>a \<times> percent / 100\<close> ms whenever the accumulated time \<open>a\<close> is positive) fails when that
  duration truncates to zero: \<open>processModeB\<close> calls \<open>start\<close> only under
  \<open>if (feed_time > 0)\<close>, since \<open>start(0)\<close> would run the pump without a time limit.  With
  50 percent and 1 ms of accumulated blowdown the enabled, idle pump in Auto is not started.
\<close>

theorem mode_b_short_blowdown_counterexample:
  "p_config (processFeedMode 1000 True 1 0 0 mode_b_pump) = Some mode_b_config
   \<and> feed_mode mode_b_config = FEED_MODE_B_PERCENT_BLOWDOWN
   \<and> percent_of_blowdown mode_b_config = 50
   \<and> p_enabled (p_status (processFeedMode 1000 True 1 0 0 mode_b_pump))
   \<and> p_hoa_mode (p_status (processFeedMode 1000 True 1 0 0 mode_b_pump)) = HOA_AUTO
   \<and> p_state (p_status (processFeedMode 1000 True 1 0 0 mode_b_pump)) = PUMP_STATE_IDLE
   \<and> \<not> running (p_status (processFeedMode 1000 True 1 0 0 mode_b_pump))
   \<and> mode_b_accumulated_blowdown (processFeedMode 1000 True 1 0 0 mode_b_pump) = 1
   \<and> \<not> running (p_status (processFeedMode 2000 False 1 0 0
            (processFeedMode 1000 True 1 0 0 mode_b_pump)))
   \<and> p_state (p_status (processFeedMode 2000 False 1 0 0
            (processFeedMode 1000 True 1 0 0 mode_b_pump))) = PUMP_STATE_IDLE"
  by (simp add: pump_scenario_defs pump_defs)

text \<open>
  C5 as amended: for an enabled pump in mode B and Auto that is not running and not inside
  a lockout window, on a tick with blowdown inactive and accumulated blowdown time
  \<open>a > 0\<close> whose product \<open>a \<times> percent\<close> fits 32 bits, the accumulator is cleared and,
  with \<open>capped\<close> the integer quotient \<open>a \<times> percent div 100\<close> capped at
  \<open>max_time_seconds \<times> 1000\<close> when \<open>max_time_seconds > 0\<close>: if \<open>capped > 0\<close> the pump is
  started at this tick with a run duration of exactly \<open>capped\<close> ms, and otherwise the
  pump is left as it is.
\<close>

theorem mode_b_feed:
  assumes cfg: "p_config p = Some cfg" and mode: "feed_mode cfg = FEED_MODE_B_PERCENT_BLOWDOWN"
    and en: "p_enabled (p_status p)" and auto: "p_hoa_mode (p_status p) = HOA_AUTO"
    and idle: "\<not> running (p_status p)"
    and lock: "\<not> (p_state (p_status p) = PUMP_STATE_LOCKED_OUT \<and> now < lockout_end_time (p_status p))"
    and pos: "0 < mode_b_accumulated_blowdown p"
    and nowrap: "unat (mode_b_accumulated_blowdown p) * unat (percent_of_blowdown cfg) < 4294967296"
  shows "mode_b_accumulated_blowdown (processFeedMode now False bt wc wv p) = 0
     \<and> (let feed = unat (mode_b_accumulated_blowdown p) * unat (percent_of_blowdown cfg) div 100;
             capped = (if max_time_seconds cfg \<noteq> 0 \<and> unat (max_time_seconds cfg) * 1000 < feed
                       then unat (max_time_seconds cfg) * 1000 else feed)
         in if 0 < capped
            then running (p_status (processFeedMode now False bt wc wv p))
               \<and> p_state (p_status (processFeedMode now False bt wc wv p)) = PUMP_STATE_RUNNING
               \<and> start_time (p_status (processFeedMode now False bt wc wv p)) = now
               \<and> time_limited (processFeedMode now False bt wc wv p)
               \<and> unat (target_time_ms (processFeedMode now False bt wc wv p)) = capped
            else processFeedMode now False bt wc wv p = p\<lparr>mode_b_accumulated_blowdown := 0\<rparr>)"
proof -
  define a where "a = mode_b_accumulated_blowdown p"
  define feed where "feed = a * ucast (percent_of_blowdown cfg) div 100"
  define capped where "capped = (if max_time_seconds cfg > 0 \<and> feed > ms (max_time_seconds cfg)
                          then ms (max_time_seconds cfg) else feed)"
  have feed: "unat feed = unat a * unat (percent_of_blowdown cfg) div 100"
    unfolding feed_def using nowrap by (intro mode_b_feed_time) (simp add: a_def)
  have capped: "unat capped = (if max_time_seconds cfg \<noteq> 0 \<and> unat (max_time_seconds cfg) * 1000 < unat feed
                       then unat (max_time_seconds cfg) * 1000 else unat feed)"
    by (simp add: capped_def word_less_nat_alt unat_ms word_neq_0_conv[symmetric] unat_gt_0)
  have pf: "processFeedMode now False bt wc wv p =
      (if capped > 0 then start now capped 0 p else p)\<lparr>mode_b_accumulated_blowdown := 0\<rparr>"
    using cfg mode en auto idle pos
    by (simp add: processFeedMode_def processModeB_def Let_def flip: a_def feed_def capped_def)
  have st: "start now capped 0 p = p\<lparr>driver_enabled := True,
                   p_status := (p_status p)\<lparr>p_state := PUMP_STATE_RUNNING, running := True,
                                            start_time := now, runtime_ms := 0\<rparr>,
                   steps_limited := False, target_time_ms := capped, time_limited := True\<rparr>"
    if "capped > 0"
    using en lock that by (auto simp: start_def Let_def split: option.splits)
  have c0: "0 < unat capped \<longleftrightarrow> capped > 0" by (simp add: unat_gt_0 word_neq_0_conv)
  have ce: "(if max_time_seconds cfg \<noteq> 0
                \<and> unat (max_time_seconds cfg) * 1000
                    < unat (mode_b_accumulated_blowdown p) * unat (percent_of_blowdown cfg) div 100
             then unat (max_time_seconds cfg) * 1000
             else unat (mode_b_accumulated_blowdown p) * unat (percent_of_blowdown cfg) div 100)
            = unat capped"
    using capped feed by (simp add: a_def)
  show ?thesis
  proof (cases "capped > 0")
    case True
    then show ?thesis
      unfolding Let_def ce using c0 by (simp add: pf st)
  next
    case False
    then show ?thesis
      unfolding Let_def ce using c0 by (simp add: pf)
  qed
qed

theorem mode_b_feed_witness:
  "running (p_status (processFeedMode 2000 False 0 0 0
      (processFeedMode 1000 True 10000 0 0 mode_b_pump)))
   \<and> unat (target_time_ms (processFeedMode 2000 False 0 0 0
      (processFeedMode 1000 True 10000 0 0 mode_b_pump))) = 5000
   \<and> unat (target_time_ms (processFeedMode 2000 False 0 0 0
      (processFeedMode 1000 True 200000 0 0 mode_b_pump))) = 60000"
proof -
  define p where "p = processFeedMode 1000 True 10000 0 0 mode_b_pump"
  define q where "q = processFeedMode 1000 True 200000 0 0 mode_b_pump"
  have p: "p = mode_b_pump\<lparr>mode_b_accumulated_blowdown := 10000\<rparr>"
    and q: "q = mode_b_pump\<lparr>mode_b_accumulated_blowdown := 200000\<rparr>"
    by (simp_all add: p_def q_def pump_scenario_defs pump_defs)
  have hp: "p_config p = Some mode_b_config" "feed_mode mode_b_config = FEED_MODE_B_PERCENT_BLOWDOWN"
    "p_enabled (p_status p)" "p_hoa_mode (p_status p) = HOA_AUTO" "\<not> running (p_status p)"
    "\<not> (p_state (p_status p) = PUMP_STATE_LOCKED_OUT \<and> 2000 < lockout_end_time (p_status p))"
    "0 < mode_b_accumulated_blowdown p"
    "unat (mode_b_accumulated_blowdown p) * unat (percent_of_blowdown mode_b_config) < 4294967296"
    by (simp_all add: p pump_scenario_defs)
  have hq: "p_config q = Some mode_b_config" "feed_mode mode_b_config = FEED_MODE_B_PERCENT_BLOWDOWN"
    "p_enabled (p_status q)" "p_hoa_mode (p_status q) = HOA_AUTO" "\<not> running (p_status q)"
    "\<not> (p_state (p_status q) = PUMP_STATE_LOCKED_OUT \<and> 2000 < lockout_end_time (p_status q))"
    "0 < mode_b_accumulated_blowdown q"
    "unat (mode_b_accumulated_blowdown q) * unat (percent_of_blowdown mode_b_config) < 4294967296"
    by (simp_all add: q pump_scenario_defs)
  have "running (p_status (processFeedMode 2000 False 0 0 0 p))
      \<and> unat (target_time_ms (processFeedMode 2000 False 0 0 0 p)) = 5000"
    using mode_b_feed[OF hp, of 0 0 0] by (simp add: p mode_b_config_def Let_def)
  moreover have "unat (target_time_ms (processFeedMode 2000 False 0 0 0 q)) = 60000"
    using mode_b_feed[OF hq, of 0 0 0] by (simp add: q mode_b_config_def Let_def)
  ultimately show ?thesis by (simp add: p_def q_def)
qed

subsection \<open>C4: the pump time limit and the lockout\<close>

text \<open>
  C4 (a defect of the code): the first half of the claim holds, the second does not.  The
  pump in feed mode B with \<open>time_limit_seconds = 120\<close> is started at 1000 ms.  The tick at
  121000 ms records a run time of 120000 ms, and the tick at 121100 ms stops the pump and
  sets the state LockedOut, as the claim says.  But \<open>lockout_end_time\<close> is still 0, so the
  start request 100 ms later is not refused: the pump leaves LockedOut and runs again.
  There is no lockout window.
\<close>

theorem lockout_window_never_set:
  "p_config (start 1000 0 0 mode_b_pump) = Some mode_b_config
   \<and> pc_time_limit_seconds mode_b_config = 120
   \<and> running (p_status (start 1000 0 0 mode_b_pump))
   \<and> running (p_status (snd (pump_update 121000 (False, 0) (0, start 1000 0 0 mode_b_pump))))
   \<and> runtime_ms (p_status (snd (pump_update 121000 (False, 0) (0, start 1000 0 0 mode_b_pump))))
       = 120000
   \<and> \<not> running (p_status timed_out_pump)
   \<and> p_state (p_status timed_out_pump) = PUMP_STATE_LOCKED_OUT
   \<and> lockout_end_time (p_status timed_out_pump) = 0
   \<and> running (p_status (start 121200 30000 0 timed_out_pump))
   \<and> p_state (p_status (start 121200 30000 0 timed_out_pump)) = PUMP_STATE_RUNNING
   \<and> start_time (p_status (start 121200 30000 0 timed_out_pump)) = 121200"
  unfolding timed_out_pump_eq first_tick
  by (simp add: started_pump start_def pump_scenario_defs)
subsection \<open>C10: the Hand-mode timer shared by the pumps\<close>

text \<open>
  C10: \<open>hand_start_time\<close> is one variable for all pumps.  When a first pump enters Hand at
  \<open>t1\<close> (not running, enabled, not locked out, so it starts) the variable becomes \<open>t1\<close>;
  when a second pump enters Hand at \<open>t2\<close> it is overwritten with \<open>t2\<close>; and at a later
  tick \<open>t\<close> the first pump reverts to Auto exactly when \<open>t - t2\<close> has reached the 600 s
  Hand timeout, whatever \<open>t - t1\<close> is.
\<close>

theorem shared_hand_timer:
  assumes h1: "p_hoa_mode (p_status p1) = HOA_HAND" "\<not> running (p_status p1)"
      "p_enabled (p_status p1)" "p_state (p_status p1) \<noteq> PUMP_STATE_LOCKED_OUT"
    and h2: "p_hoa_mode (p_status p2) = HOA_HAND" "\<not> running (p_status p2)"
  shows "fst (pump_processHOA t1 (h0, p1)) = t1
     \<and> running (p_status (snd (pump_processHOA t1 (h0, p1))))
     \<and> fst (pump_processHOA t2 (fst (pump_processHOA t1 (h0, p1)), p2)) = t2
     \<and> p_hoa_mode (p_status (snd (pump_processHOA t
          (fst (pump_processHOA t2 (fst (pump_processHOA t1 (h0, p1)), p2)),
           snd (pump_processHOA t1 (h0, p1))))))
        = (if t - t2 \<ge> HOA_HAND_TIMEOUT_SEC * 1000 then HOA_AUTO else HOA_HAND)"
  using assms
  by (simp add: pump_processHOA_def start_def stop_def Let_def split: option.splits)

theorem shared_hand_timer_witness:
  "HOA_HAND_TIMEOUT_SEC * 1000 \<le> 601000 - (1000 :: u32)
   \<and> fst (pump_processHOA 1000 (0, hand_pump)) = 1000
   \<and> fst (pump_processHOA 301000 (fst (pump_processHOA 1000 (0, hand_pump)), hand_pump)) = 301000
   \<and> p_hoa_mode (p_status (snd (pump_processHOA 601000
          (fst (pump_processHOA 301000 (fst (pump_processHOA 1000 (0, hand_pump)), hand_pump)),
           snd (pump_processHOA 1000 (0, hand_pump)))))) = HOA_HAND"
proof -
  have h: "p_hoa_mode (p_status hand_pump) = HOA_HAND" "\<not> running (p_status hand_pump)"
      "p_enabled (p_status hand_pump)" "p_state (p_status hand_pump) \<noteq> PUMP_STATE_LOCKED_OUT"
    by (simp_all add: hand_pump_def pump_setHOA_def pump_scenario_defs)
  have c: "\<not> HOA_HAND_TIMEOUT_SEC * 1000 \<le> 601000 - (301000 :: u32)"
    and g: "HOA_HAND_TIMEOUT_SEC * 1000 \<le> 601000 - (1000 :: u32)"
    by (simp_all add: HOA_HAND_TIMEOUT_SEC_def)
  note t = shared_hand_timer[OF h h(1,2), of 1000 0 301000 601000]
  from t[unfolded if_not_P[OF c]] g show ?thesis by blast
qed

subsection \<open>C8: invalid manual inputs\<close>



subsection \<open>C9: all manual inputs at their setpoints\<close>

text \<open>
  C9 says that with the four manual inputs valid and exactly at their setpoints the
  blowdown, caustic and sulfite recommendations are at or near zero (within the support of
  the Zero and Low consequents, which end at 25 and 50) and the confidence is HIGH.  With
  the default rule base the caustic and sulfite outputs are the centroid of the Zero
  set, 26/3, and the confidence is HIGH, but the blowdown recommendation is
  39475/779, about 50.7 percent.  The rule table is written with the \<open>linguistic_term_t\<close>
  shorthands (\<open>MD = 3\<close>, \<open>HI = 5\<close>, \<open>VH = 6\<close>), while every input and output variable has
  five sets, indexed 0 to 4 with Normal at index 2.  An antecedent \<open>HI\<close> or \<open>VH\<close> is out
  of the variable's range and is skipped like \<open>DONT_CARE\<close>, so rules 9, 15 and 25 fire at
  their full weight on every input, and the consequent \<open>MD\<close> of rules 9 and 25 selects the
  output set High.  Rule 3, whose comment reads `IF Conductivity is Normal THEN Blowdown is
  Zero', tests the input set High and does not fire at the setpoint.
\<close>

theorem setpoint_recommendations:
  "manual_valid at_setpoints = [True, True, True, True, False, False]
   \<and> manual_values at_setpoints = [2500, 300, 30, 11, 0, 0]
   \<and> blowdown_rate (fst (evaluate sensor_inputs at_setpoints)) = 39475 / 779
   \<and> caustic_rate (fst (evaluate sensor_inputs at_setpoints)) = 26 / 3
   \<and> sulfite_rate (fst (evaluate sensor_inputs at_setpoints)) = 26 / 3
   \<and> confidence True True True = ''HIGH''"
proof -
  have c: "f_config at_setpoints = Some typical_fuzzy_config"
    by (simp add: at_setpoints_def setManualInput_def fuzzy_begin_def)
  have e: "fst (evaluate sensor_inputs at_setpoints)
      = infer at_setpoints (fuzzify_inputs sensor_inputs at_setpoints)"
    using c by (simp add: evaluate_def Let_def)
  have b: "blowdown_rate (fst (evaluate sensor_inputs at_setpoints)) = 39475 / 779"
    unfolding e infer_rates bd_agg
    by (simp add: outputs_at_setpoints FUZZY_OUT_BLOWDOWN_def bd_centroid)
  have k: "caustic_rate (fst (evaluate sensor_inputs at_setpoints)) = 26 / 3"
    unfolding e infer_rates zero_agg
    by (simp add: outputs_at_setpoints FUZZY_OUT_CAUSTIC_def zero_centroid)
  have s: "sulfite_rate (fst (evaluate sensor_inputs at_setpoints)) = 26 / 3"
    unfolding e infer_rates zero_agg
    by (simp add: outputs_at_setpoints FUZZY_OUT_SULFITE_def zero_centroid)
  have m: "manual_valid at_setpoints = [True, True, True, True, False, False]"
    "manual_values at_setpoints = [2500, 300, 30, 11, 0, 0]"
    by (simp_all add: fuzzy_scenario_defs fuzzy_consts replicate_numerals)
  have h: "confidence True True True = ''HIGH''"
    by (simp add: confidence_def)
  show ?thesis using b k s m h by simp
qed

end
